theory Spec2Isabelle
  imports Complex_Main
begin

section \<open>Python values, exceptions and the outside world\<close>

text \<open>
  The model follows \<^verbatim>\<open>LakeShore.py\<close>. A Python exception is a value of
  type \<open>error\<close>; a method that mutates state and may raise is a function from
  the state to a result (\<open>Inl\<close> the exception raised, \<open>Inr\<close> the value
  returned) paired with the state at the moment of the return or of the raise.
\<close>

datatype error =
  TypeError | ValueError | AttributeError | NameError | RuntimeError | SystemExit | VisaIOError

type_synonym ('a, 's) py = "'s \<Rightarrow> (error + 'a) \<times> 's"

definition bind :: "('a, 's) py \<Rightarrow> ('a \<Rightarrow> ('b, 's) py) \<Rightarrow> ('b, 's) py" where
  "bind m f = (\<lambda>s. case m s of (Inl e, s') \<Rightarrow> (Inl e, s') | (Inr x, s') \<Rightarrow> f x s')"

definition ret :: "'a \<Rightarrow> ('a, 's) py" where
  "ret x = (\<lambda>s. (Inr x, s))"

text \<open>
  The world outside the program: the file system is the sequence of calls made on
  files (\<^verbatim>\<open>open(path, mode)\<close>, \<^verbatim>\<open>fh.write(text)\<close>,
  \<^verbatim>\<open>fh.close()\<close>, a handle being named by its path), the console is the
  sequence of printed lines, the instrument bus is the sequence of commands sent to the
  device. \<open>ticks\<close> counts the calls of \<^verbatim>\<open>time.monotonic()\<close>: the
  clock is a function \<open>clk\<close> from the number of the call to the value read,
  in seconds (a Python float, modelled as a real number).
\<close>

datatype fevent = Fopen string string | Fwrite string string | Fclose string

datatype gpib_event = Gwrite string | Gquery string

record world =
  ticks :: nat
  disk :: "fevent list"
  stdout :: "string list"
  gpib :: "gpib_event list"

definition monotonic :: "(nat \<Rightarrow> real) \<Rightarrow> world \<Rightarrow> real \<times> world" where
  "monotonic clk w = (clk (ticks w), w\<lparr>ticks := Suc (ticks w)\<rparr>)"

definition emit :: "fevent \<Rightarrow> world \<Rightarrow> world" where
  "emit e w = w\<lparr>disk := disk w @ [e]\<rparr>"

definition print :: "string \<Rightarrow> world \<Rightarrow> world" where
  "print l w = w\<lparr>stdout := stdout w @ [l]\<rparr>"

definition nl :: string where
  "nl = [CHR 0x0A]"

definition tab :: string where
  "tab = [CHR 0x09]"

text \<open>The text written to the file \<open>p\<close>, one element per call of \<^verbatim>\<open>write\<close>.\<close>

fun writes :: "string \<Rightarrow> fevent list \<Rightarrow> string list" where
  "writes p [] = []"
| "writes p (Fwrite q t # es) = (if q = p then t # writes p es else writes p es)"
| "writes p (e # es) = writes p es"

text \<open>
  The content of the file \<open>p\<close> after the calls \<open>es\<close>, from the content
  \<open>c\<close>: opening in mode \<^verbatim>\<open>w\<close> truncates, writing appends.
\<close>

fun file_content :: "string \<Rightarrow> string \<Rightarrow> fevent list \<Rightarrow> string" where
  "file_content p c [] = c"
| "file_content p c (Fopen q m # es) =
     file_content p (if q = p \<and> m = ''w'' then [] else c) es"
| "file_content p c (Fwrite q t # es) =
     file_content p (if q = p then c @ t else c) es"
| "file_content p c (Fclose q # es) = file_content p c es"

section \<open>Debug flags and configuration\<close>

definition upper_char :: "char \<Rightarrow> char" where
  "upper_char c =
     (let n = (of_char c :: nat)
      in if 97 \<le> n \<and> n \<le> 122 then char_of (n - 32) else c)"

definition upper :: "string \<Rightarrow> string" where
  "upper s = map upper_char s"

text \<open>\<^verbatim>\<open>debug(*flags)\<close>, with the module's list \<^verbatim>\<open>_DEBUG\<close> as \<open>DEBUG\<close>.\<close>

definition debug :: "string list \<Rightarrow> string list \<Rightarrow> bool" where
  "debug DEBUG flags =
     (if ''NONE'' \<in> set DEBUG then False
      else if ''ALL'' \<in> set DEBUG then True
      else if list_ex (\<lambda>f. upper f \<in> set DEBUG) flags then True
      else if flags \<noteq> [] then False
      else True)"

record configuration =
  DEVICENAME :: string
  LAKESHORE_Heater_Resistance :: real
  FILEPATH :: string
  LOCALFILEPATH :: string
  SAVINGINTERVALS :: real
  TEMPFILEPATH :: string
  TEMPFILENAME :: string

section \<open>The buffered writer: class \<^verbatim>\<open>monitor_file\<close>\<close>

text \<open>
  \<open>headertext\<close> is a Python string or \<^verbatim>\<open>None\<close>; \<open>data\<close> is
  the list of buffered lines; \<open>time\<close> is the flush deadline.
\<close>

record monitor_file =
  created :: string
  fp :: string
  headertext :: "string option"
  data :: "string list"
  time :: real

text \<open>Python's truth value of \<^verbatim>\<open>self.headertext\<close>.\<close>

definition truthy :: "string option \<Rightarrow> bool" where
  "truthy h = (case h of None \<Rightarrow> False | Some s \<Rightarrow> s \<noteq> [])"

definition rstrip_slash :: "string \<Rightarrow> string" where
  "rstrip_slash s = rev (dropWhile (\<lambda>c. c = CHR ''/'') (rev s))"

text \<open>
  \<^verbatim>\<open>monitor_file.__init__(fp, fn)\<close>; \<open>stamp\<close> is the value of
  \<^verbatim>\<open>strftime(r'%Y%m%dT%H%M%S', localtime())\<close>.
\<close>

definition monitor_file_init ::
  "string list \<Rightarrow> configuration \<Rightarrow> (nat \<Rightarrow> real) \<Rightarrow> string \<Rightarrow> string \<Rightarrow> string \<Rightarrow>
   world \<Rightarrow> monitor_file \<times> world" where
  "monitor_file_init DEBUG C clk stamp fp0 fn0 w =
     (let fp1 = rstrip_slash fp0;
          path = fp1 @ ''/'' @ fn0 @ stamp @ ''.dat'';
          (path, w) =
            (if debug DEBUG [''TEMPFILE'']
             then (let p = TEMPFILEPATH C @ ''/'' @ TEMPFILENAME C
                   in (p, emit (Fclose p) (emit (Fopen p ''w'') w)))
             else (path, w));
          (now, w) = monotonic clk w
      in (\<lparr>created = stamp, fp = path, headertext = Some [], data = [],
           time = now + SAVINGINTERVALS C\<rparr>, w))"

text \<open>\<^verbatim>\<open>flushheader(self, fh)\<close>: writing \<^verbatim>\<open>None\<close> raises.\<close>

definition flushheader :: "string \<Rightarrow> (unit, monitor_file \<times> world) py" where
  "flushheader fh = (\<lambda>(self, w).
     case headertext self of
       None \<Rightarrow> (Inl TypeError, (self, w))
     | Some h \<Rightarrow> (Inr (), (self\<lparr>headertext := None\<rparr>, emit (Fwrite fh h) w)))"

definition savedata :: "configuration \<Rightarrow> (nat \<Rightarrow> real) \<Rightarrow> (unit, monitor_file \<times> world) py" where
  "savedata C clk = (\<lambda>(self, w).
     if data self = [] then (Inr (), (self, w))
     else (case monotonic clk w of (now, w1) \<Rightarrow>
       if now < time self then (Inr (), (self, w1))
       else
         (let fh = fp self;
              w2 = emit (Fopen fh ''a'') w1
          in (case (if truthy (headertext self) then flushheader fh (self, w2)
                    else (Inr (), (self, w2))) of
                (Inl e, s) \<Rightarrow> (Inl e, s)
              | (Inr u, (self3, w3)) \<Rightarrow>
                  (let w4 = foldl (\<lambda>w d. emit (Fwrite fh (d @ nl)) w) w3 (data self3);
                       w5 = emit (Fclose fh) w4;
                       self5 = self3\<lparr>data := []\<rparr>
                   in (case monotonic clk w5 of (now', w6) \<Rightarrow>
                        (Inr (), (self5\<lparr>time := now' + SAVINGINTERVALS C\<rparr>, w6))))))))"

definition writedata ::
  "configuration \<Rightarrow> (nat \<Rightarrow> real) \<Rightarrow> string \<Rightarrow> (unit, monitor_file \<times> world) py" where
  "writedata C clk datastr = (\<lambda>(self, w).
     savedata C clk (self\<lparr>data := data self @ [datastr]\<rparr>, w))"

definition flushdata :: "configuration \<Rightarrow> (nat \<Rightarrow> real) \<Rightarrow> (unit, monitor_file \<times> world) py" where
  "flushdata C clk = (\<lambda>(self, w).
     case monotonic clk w of (now, w1) \<Rightarrow> savedata C clk (self\<lparr>time := now\<rparr>, w1))"


text \<open>
  \<^verbatim>\<open>b.split("\n")\<close>, \<^verbatim>\<open>str.isspace\<close> on the characters below 256 and
  \<^verbatim>\<open>l.lstrip()\<close>.
\<close>

fun split_on :: "char \<Rightarrow> string \<Rightarrow> string list" where
  "split_on c [] = [[]]"
| "split_on c (x # xs) =
     (if x = c then [] # split_on c xs
      else (case split_on c xs of [] \<Rightarrow> [[x]] | p # ps \<Rightarrow> (x # p) # ps))"

definition isspace :: "char \<Rightarrow> bool" where
  "isspace c = ((of_char c :: nat) \<in> set [9, 10, 11, 12, 13, 28, 29, 30, 31, 32, 133, 160])"

definition lstrip :: "string \<Rightarrow> string" where
  "lstrip l = dropWhile isspace l"

text \<open>
  \<^verbatim>\<open>writeheaderblock(self, b)\<close>. The loop runs over
  \<^verbatim>\<open>b.split("\n")[1:-1]\<close>; \<open>n\<close> is set in the first iteration, from
  the first line, before \<^verbatim>\<open>self.headertext += ...\<close>, which raises
  \<^verbatim>\<open>TypeError\<close> when \<^verbatim>\<open>self.headertext\<close> is \<^verbatim>\<open>None\<close>.
\<close>

fun headerlines :: "nat \<Rightarrow> string list \<Rightarrow> (unit, monitor_file) py" where
  "headerlines n [] = ret ()"
| "headerlines n (l # ls) = (\<lambda>self.
     case headertext self of
       None \<Rightarrow> (Inl TypeError, self)
     | Some h \<Rightarrow> headerlines n ls (self\<lparr>headertext := Some (h @ ''# '' @ drop n l @ nl)\<rparr>))"

definition blocklines :: "string \<Rightarrow> string list" where
  "blocklines b = butlast (tl (split_on (CHR 0x0A) b))"

definition writeheaderblock :: "string \<Rightarrow> (unit, monitor_file) py" where
  "writeheaderblock b =
     (let ls = blocklines b;
          n = (case ls of [] \<Rightarrow> 0 | l # _ \<Rightarrow> length l - length (lstrip l))
      in headerlines n ls)"

section \<open>The instrument: class \<^verbatim>\<open>LAKESHORE\<close>\<close>

text \<open>
  \<open>lsh\<close> is the instrument handle, bound by \<^verbatim>\<open>Open\<close> only. The device
  and its transport are a function \<open>dev\<close> from the calls made on the handle so far
  and the query to the outcome of \<^verbatim>\<open>self.lsh.query(w)\<close>: the answer, or the
  exception the call raises (a transport error).
\<close>

record LAKESHORE =
  lsn :: string
  hr :: real
  lsh :: "string option"

definition quoted :: "string \<Rightarrow> string" where
  "quoted s = [CHR 0x27] @ s @ [CHR 0x27]"

text \<open>
  \<^verbatim>\<open>LAKESHORE.__init__\<close>: \<open>rm_str\<close> and \<open>rs_str\<close> are the texts printed for
  the resource manager and for the resources \<open>rs\<close> it lists; \<^verbatim>\<open>exit()\<close> raises
  \<^verbatim>\<open>SystemExit\<close>.
\<close>

definition LAKESHORE_init ::
  "string list \<Rightarrow> configuration \<Rightarrow> string \<Rightarrow> string list \<Rightarrow> string \<Rightarrow> (LAKESHORE, world) py" where
  "LAKESHORE_init DEBUG C rm_str rs rs_str = (\<lambda>w.
     let w = (if debug DEBUG [''LOG_GPIB''] then print rm_str w else w);
         w = (if debug DEBUG [''LOG_GPIB''] then print rs_str w else w);
         name = DEVICENAME C
     in if name \<notin> set rs
        then (Inl SystemExit,
              print (''failed to find instrument at LakeShore address '' @ name @ ''.'') w)
        else (Inr \<lparr>lsn = name, hr = LAKESHORE_Heater_Resistance C, lsh = None\<rparr>, w))"

definition Open :: "string list \<Rightarrow> LAKESHORE \<Rightarrow> world \<Rightarrow> LAKESHORE \<times> world" where
  "Open DEBUG self w =
     (let w = (if debug DEBUG [''LOG_GPIB'']
               then print (''open_resource('' @ quoted (lsn self) @ '')'') w else w)
      in if debug DEBUG [''NOGPIB''] then (self, print ''skipped...'' w)
         else (self\<lparr>lsh := Some (lsn self)\<rparr>, w))"

definition Configure :: "LAKESHORE \<Rightarrow> world \<Rightarrow> LAKESHORE \<times> world" where
  "Configure self w = (self, w)"

definition Start :: "LAKESHORE \<Rightarrow> world \<Rightarrow> LAKESHORE \<times> world" where
  "Start self w = (self, w)"

definition query ::
  "string list \<Rightarrow> (gpib_event list \<Rightarrow> string \<Rightarrow> error + string) \<Rightarrow> LAKESHORE \<Rightarrow> string \<Rightarrow>
   (string, world) py" where
  "query DEBUG dev self q = (\<lambda>w.
     let w = (if debug DEBUG [''LOG_GPIB'']
              then print (lsn self @ '' query '' @ quoted q) w else w)
     in if debug DEBUG [''NOGPIB'']
        then (Inr ''1'', print (''skipped... return '' @ quoted ''1'') w)
        else (case lsh self of
                None \<Rightarrow> (Inl AttributeError, w)
              | Some h \<Rightarrow> (dev (gpib w) q, w\<lparr>gpib := gpib w @ [Gquery q]\<rparr>)))"

text \<open>
  \<^verbatim>\<open>float(...)\<close> and \<^verbatim>\<open>int(...)\<close> are Python's: a parser \<open>p\<close>
  that gives no value stands for the \<^verbatim>\<open>ValueError\<close> they raise.
\<close>

definition convert :: "(string \<Rightarrow> 'a option) \<Rightarrow> string \<Rightarrow> ('a, world) py" where
  "convert p r = (\<lambda>w. (case p r of None \<Rightarrow> Inl ValueError | Some v \<Rightarrow> Inr v, w))"

definition read ::
  "string list \<Rightarrow> (gpib_event list \<Rightarrow> string \<Rightarrow> error + string) \<Rightarrow>
   (string \<Rightarrow> 'f option) \<Rightarrow> (string \<Rightarrow> int option) \<Rightarrow> LAKESHORE \<Rightarrow>
   ('f \<times> 'f \<times> 'f \<times> int \<times> 'f, world) py" where
  "read DEBUG dev py_float py_int self =
     bind (query DEBUG dev self ''RDGR? 1'') (\<lambda>r1. bind (convert py_float r1) (\<lambda>T1R.
     bind (query DEBUG dev self ''RDGK? 1'') (\<lambda>r2. bind (convert py_float r2) (\<lambda>T1T.
     bind (query DEBUG dev self ''SETP?'') (\<lambda>r3. bind (convert py_float r3) (\<lambda>TSP.
     bind (query DEBUG dev self ''HTRRNG?'') (\<lambda>r4. bind (convert py_int r4) (\<lambda>HTR.
     bind (query DEBUG dev self ''HTR?'') (\<lambda>r5. bind (convert py_float r5) (\<lambda>HTV.
     ret (T1R, T1T, TSP, HTR, HTV)))))))))))"

section \<open>The sampling loop: \<^verbatim>\<open>RunningThread\<close>\<close>

text \<open>Decimal digits: \<^verbatim>\<open>str(n)\<close> and zero padding to a width.\<close>

definition digit_char :: "nat \<Rightarrow> char" where
  "digit_char k = ''0123456789'' ! k"

fun digits :: "nat \<Rightarrow> string" where
  "digits n = (if n < 10 then [digit_char n] else digits (n div 10) @ [digit_char (n mod 10)])"

declare digits.simps [simp del]

definition str_int :: "int \<Rightarrow> string" where
  "str_int i = (if i < 0 then ''-'' @ digits (nat (- i)) else digits (nat i))"

definition zero_pad :: "nat \<Rightarrow> nat \<Rightarrow> string" where
  "zero_pad k n = replicate (k - length (digits n)) (CHR ''0'') @ digits n"

text \<open>
  \<^verbatim>\<open>datetime.now().strftime('%H:%M:%S.%f')\<close>: hour, minute and second on two
  digits, the microsecond on six.
\<close>

record datetime =
  hour :: nat
  minute :: nat
  second :: nat
  microsecond :: nat

definition strftime_HMSf :: "datetime \<Rightarrow> string" where
  "strftime_HMSf t =
     zero_pad 2 (hour t) @ '':'' @ zero_pad 2 (minute t) @ '':'' @ zero_pad 2 (second t)
       @ ''.'' @ zero_pad 6 (microsecond t)"

text \<open>
  The line built in the loop body, \<^verbatim>\<open>w\<close>. \<open>fmt_12_1f\<close> and \<open>fmt_8_3e\<close>
  are Python's float formats \<^verbatim>\<open>12.1f\<close> and \<^verbatim>\<open>8.3e\<close>;
  \<^verbatim>\<open>ts[:-5]\<close> drops the last five characters of the time stamp.
\<close>

definition record_line ::
  "('f \<Rightarrow> string) \<Rightarrow> ('f \<Rightarrow> string) \<Rightarrow> string \<Rightarrow> 'f \<Rightarrow> 'f \<times> 'f \<times> 'f \<times> int \<times> 'f \<Rightarrow> string" where
  "record_line fmt_12_1f fmt_8_3e ts s smp =
     (case smp of (T1R, T1T, TSP, HTR, HTV) \<Rightarrow>
        take (length ts - 5) ts @ tab
          @ fmt_12_1f s @ tab
          @ fmt_8_3e T1R @ tab
          @ fmt_8_3e T1T @ tab
          @ fmt_8_3e TSP @ tab
          @ str_int HTR @ tab
          @ fmt_8_3e HTV @ tab)"

text \<open>
  One pass of the body of \<^verbatim>\<open>while Running\<close>, after the sleep: \<open>i\<close> is the
  pass counter, \<open>now\<close> is \<^verbatim>\<open>datetime.now()\<close>, \<open>s\<close> is \<^verbatim>\<open>time()\<close>.
  Under \<^verbatim>\<open>debug("SHOWDATA")\<close> the pass prints its counter and then reaches
  \<^verbatim>\<open>print(data)\<close>, where the name \<^verbatim>\<open>data\<close> is not bound.
\<close>

definition loop_body ::
  "string list \<Rightarrow> configuration \<Rightarrow> (nat \<Rightarrow> real) \<Rightarrow> (gpib_event list \<Rightarrow> string \<Rightarrow> error + string) \<Rightarrow>
   (string \<Rightarrow> 'f option) \<Rightarrow> (string \<Rightarrow> int option) \<Rightarrow> ('f \<Rightarrow> string) \<Rightarrow> ('f \<Rightarrow> string) \<Rightarrow>
   LAKESHORE \<Rightarrow> nat \<Rightarrow> datetime \<Rightarrow> 'f \<Rightarrow> (unit, monitor_file \<times> world) py" where
  "loop_body DEBUG C clk dev py_float py_int fmt_12_1f fmt_8_3e LS i now s = (\<lambda>(fh, w).
     let w = (if debug DEBUG [''SHOWDATA'']
              then print (''count #'' @ zero_pad 2 i @ '' '') w else w);
         ts = strftime_HMSf now
     in (case read DEBUG dev py_float py_int LS w of
           (Inl e, w') \<Rightarrow> (Inl e, (fh, w'))
         | (Inr smp, w') \<Rightarrow>
             if debug DEBUG [''SHOWDATA''] then (Inl NameError, (fh, w'))
             else writedata C clk (record_line fmt_12_1f fmt_8_3e ts s smp) (fh, w')))"

section \<open>The module's top level\<close>

text \<open>
  The module's global names \<^verbatim>\<open>LS\<close>, \<^verbatim>\<open>fh\<close>, \<^verbatim>\<open>LOOP\<close> and
  \<^verbatim>\<open>Running\<close> (\<open>None\<close> while a name is not bound) and the world outside. A
  thread object is created, then started. What the main thread reads from outside is
  gathered in \<open>environ\<close>: the debug flags and the configuration, the clock, the time
  stamp of the file, the resource manager's texts and resources, and Python's text for
  a float.
\<close>

datatype thread_state = Created | Started

record globals =
  glob_LS :: "LAKESHORE option"
  glob_fh :: "monitor_file option"
  glob_LOOP :: "thread_state option"
  glob_Running :: "bool option"
  outside :: world

record environ =
  env_DEBUG :: "string list"
  env_configuration :: configuration
  env_clock :: "nat \<Rightarrow> real"
  env_stamp :: string
  env_rm :: string
  env_resources :: "string list"
  env_rs :: string
  env_str_float :: "real \<Rightarrow> string"

definition globals0 :: "world \<Rightarrow> globals" where
  "globals0 w =
     \<lparr>glob_LS = None, glob_fh = None, glob_LOOP = None, glob_Running = None, outside = w\<rparr>"

definition VERSION :: string where
  "VERSION = ''0.00''"

text \<open>The text handed to \<^verbatim>\<open>fh.writeheaderblock\<close>.\<close>

definition header_block :: "string \<Rightarrow> string \<Rightarrow> string \<Rightarrow> string" where
  "header_block name stamp resistance =
     nl @ ''file    : '' @ name @ nl
       @ ''content : '' @ [CHR 0x22] @ ''LakeShore370'' @ [CHR 0x22] @ '' raw data'' @ nl
       @ ''created : '' @ stamp @ nl
       @ ''author  : Roch Schanen LakeShore.py V'' @ VERSION @ nl
       @ ''Heater Resistance : '' @ resistance @ '' [Ohms]'' @ nl
       @ ''column 01 : time stamp [HH:MM:SS.F]'' @ nl
       @ ''column 02 : time in seconds [s]'' @ nl
       @ ''column 03 : Thermometer 1 Resistance [Ohms]'' @ nl
       @ ''column 04 : Thermometer 1 Temperature [K] '' @ nl
       @ ''column 05 : Temperature Set-point [K]'' @ nl
       @ ''column 06 : Heater Range [index] '' @ nl
       @ ''column 07 : Heater Value [W]'' @ nl"

text \<open>
  The statements of the start-up, from \<^verbatim>\<open>LS = LAKESHORE()\<close> to
  \<^verbatim>\<open>LOOP.start()\<close>, each a step of the main thread on the globals; a statement
  that reads a name not yet bound raises \<^verbatim>\<open>NameError\<close>.
\<close>

definition LS_new :: "environ \<Rightarrow> (unit, globals) py" where
  "LS_new E = (\<lambda>g.
     case LAKESHORE_init (env_DEBUG E) (env_configuration E) (env_rm E) (env_resources E)
            (env_rs E) (outside g) of
       (Inl e, w) \<Rightarrow> (Inl e, g\<lparr>outside := w\<rparr>)
     | (Inr ls, w) \<Rightarrow> (Inr (), g\<lparr>glob_LS := Some ls, outside := w\<rparr>))"

definition fh_new :: "environ \<Rightarrow> (unit, globals) py" where
  "fh_new E = (\<lambda>g.
     case monitor_file_init (env_DEBUG E) (env_configuration E) (env_clock E) (env_stamp E)
            (FILEPATH (env_configuration E)) ''LS370_'' (outside g) of
       (f, w) \<Rightarrow> (Inr (), g\<lparr>glob_fh := Some f, outside := w\<rparr>))"

definition fh_writeheaderblock :: "environ \<Rightarrow> (unit, globals) py" where
  "fh_writeheaderblock E = (\<lambda>g.
     case glob_fh g of
       None \<Rightarrow> (Inl NameError, g)
     | Some f \<Rightarrow>
         (case glob_LS g of
            None \<Rightarrow> (Inl NameError, g)
          | Some ls \<Rightarrow>
              (case writeheaderblock
                      (header_block (last (split_on (CHR ''/'') (fp f))) (created f)
                         (env_str_float E (hr ls))) f of
                 (r, f') \<Rightarrow> (r, g\<lparr>glob_fh := Some f'\<rparr>))))"

definition LS_call ::
  "(LAKESHORE \<Rightarrow> world \<Rightarrow> LAKESHORE \<times> world) \<Rightarrow> (unit, globals) py" where
  "LS_call method = (\<lambda>g.
     case glob_LS g of
       None \<Rightarrow> (Inl NameError, g)
     | Some ls \<Rightarrow>
         (case method ls (outside g) of
            (ls', w) \<Rightarrow> (Inr (), g\<lparr>glob_LS := Some ls', outside := w\<rparr>)))"

definition LOOP_new :: "(unit, globals) py" where
  "LOOP_new = (\<lambda>g. (Inr (), g\<lparr>glob_LOOP := Some Created\<rparr>))"

definition Running_set :: "bool \<Rightarrow> (unit, globals) py" where
  "Running_set b = (\<lambda>g. (Inr (), g\<lparr>glob_Running := Some b\<rparr>))"

text \<open>
  \<^verbatim>\<open>LOOP.start()\<close>: the thread begins to run \<^verbatim>\<open>RunningThread\<close> beside the
  main thread (a second start raises \<^verbatim>\<open>RuntimeError\<close>). The run of the thread
  itself is not part of this step.
\<close>

definition LOOP_start :: "(unit, globals) py" where
  "LOOP_start = (\<lambda>g.
     case glob_LOOP g of
       None \<Rightarrow> (Inl NameError, g)
     | Some Created \<Rightarrow> (Inr (), g\<lparr>glob_LOOP := Some Started\<rparr>)
     | Some Started \<Rightarrow> (Inl RuntimeError, g))"

definition startup :: "environ \<Rightarrow> (unit, globals) py list" where
  "startup E =
     [LS_new E,
      fh_new E, fh_writeheaderblock E,
      LS_call (Open (env_DEBUG E)), LS_call Configure, LS_call Start,
      LOOP_new, Running_set True, LOOP_start]"

text \<open>Statements run one after the other; the first exception ends the run.\<close>

fun steps :: "(unit, 's) py list \<Rightarrow> (unit, 's) py" where
  "steps [] = ret ()"
| "steps (f # fs) = bind f (\<lambda>_. steps fs)"

text \<open>The globals when the first \<open>k\<close> statements of the start-up have run.\<close>

definition after :: "environ \<Rightarrow> world \<Rightarrow> nat \<Rightarrow> globals" where
  "after E w k = snd (steps (take k (startup E)) (globals0 w))"

section \<open>Sequences of calls on the writer, and what they leave\<close>

datatype op = Writedata string | Flushdata

fun run_op :: "configuration \<Rightarrow> (nat \<Rightarrow> real) \<Rightarrow> op \<Rightarrow> (unit, monitor_file \<times> world) py" where
  "run_op C clk (Writedata d) = writedata C clk d"
| "run_op C clk Flushdata = flushdata C clk"

fun run :: "configuration \<Rightarrow> (nat \<Rightarrow> real) \<Rightarrow> op list \<Rightarrow> (unit, monitor_file \<times> world) py" where
  "run C clk [] = ret ()"
| "run C clk (x # xs) = bind (run_op C clk x) (\<lambda>_. run C clk xs)"

fun lines_of :: "op list \<Rightarrow> string list" where
  "lines_of [] = []"
| "lines_of (Writedata d # xs) = d # lines_of xs"
| "lines_of (Flushdata # xs) = lines_of xs"

text \<open>
  The header a flush would write: the header text, when it is a non-empty string.
\<close>

definition pending_header :: "monitor_file \<Rightarrow> string list" where
  "pending_header self =
     (case headertext self of None \<Rightarrow> [] | Some h \<Rightarrow> if h = [] then [] else [h])"

text \<open>The calls on the file that one flush of the writer \<open>self\<close> makes.\<close>

definition flush_events :: "monitor_file \<Rightarrow> fevent list" where
  "flush_events self =
     Fopen (fp self) ''a'' # map (Fwrite (fp self)) (pending_header self)
       @ map (\<lambda>d. Fwrite (fp self) (d @ nl)) (data self) @ [Fclose (fp self)]"

text \<open>
  The relation between a state \<open>s\<close> and a later state \<open>s'\<close>, the lines \<open>ls\<close>
  having been handed to the writer in between: the file has grown by the header \<open>H\<close>
  (written or still pending) followed by the lines \<open>L\<close>, and the lines not written are
  the buffer.
\<close>

definition conserved :: "monitor_file \<times> world \<Rightarrow> monitor_file \<times> world \<Rightarrow> string list \<Rightarrow> bool" where
  "conserved s s' ls =
     (case s of (self, w) \<Rightarrow> case s' of (self', w') \<Rightarrow>
        fp self' = fp self \<and>
        (\<exists>H L. writes (fp self) (disk w') = writes (fp self) (disk w) @ H @ map (\<lambda>d. d @ nl) L \<and>
           H @ pending_header self' = pending_header self \<and>
           L @ data self' = data self @ ls \<and>
           (L = [] \<or> pending_header self' = []) \<and>
           (H = [] \<or> L \<noteq> [])))"

text \<open>No call in \<open>es\<close> truncates the file \<open>p\<close>.\<close>

fun appending :: "string \<Rightarrow> fevent list \<Rightarrow> bool" where
  "appending p [] = True"
| "appending p (Fopen q m # es) = ((q \<noteq> p \<or> m \<noteq> ''w'') \<and> appending p es)"
| "appending p (e # es) = appending p es"

section \<open>The values of the source, and a start state\<close>

text \<open>
  The list \<^verbatim>\<open>_DEBUG\<close> and the entry of \<^verbatim>\<open>configuration\<close> as the module
  writes them, a world in which nothing has happened yet, a clock that advances by
  one second from one reading to the next, and the writer as the module builds it.
\<close>

definition DEBUG_source :: "string list" where
  "DEBUG_source = [''TEMPFILE'', ''LOG_GPIB'', ''NOGPIB'']"

definition configuration_source :: configuration where
  "configuration_source =
     \<lparr>DEVICENAME = ''GPIB2::24::INSTR'', LAKESHORE_Heater_Resistance = 194,
      FILEPATH = ''./'', LOCALFILEPATH = ''.'', SAVINGINTERVALS = 10,
      TEMPFILEPATH = ''.'', TEMPFILENAME = ''d.dat''\<rparr>"

definition world0 :: world where
  "world0 = \<lparr>ticks = 0, disk = [], stdout = [], gpib = []\<rparr>"

definition clock_1s :: "nat \<Rightarrow> real" where
  "clock_1s n = real n"

definition fresh_file :: "monitor_file \<times> world" where
  "fresh_file =
     monitor_file_init DEBUG_source configuration_source clock_1s ''20251128T120000''
       (FILEPATH configuration_source) ''LS370_'' world0"

text \<open>
  Three more clocks: ten seconds from one reading to the next; one second from one
  reading to the next, ten seconds late; readings a quarter of a second apart at
  first, and past the flush window from the fifth reading on.
\<close>

definition clock_10s :: "nat \<Rightarrow> real" where
  "clock_10s n = 10 * real n"

definition clock_late :: "nat \<Rightarrow> real" where
  "clock_late n = 10 + real n"

definition clock_A :: "nat \<Rightarrow> real" where
  "clock_A n = (if n < 4 then real n / 4 else 10 + real n)"

text \<open>The same writer after \<^verbatim>\<open>writeheaderblock\<close> on a block of one line.\<close>

definition headed_file :: "monitor_file \<times> world" where
  "headed_file =
     (snd (writeheaderblock (nl @ ''  column 07 : Heater Value [W]'' @ nl) (fst fresh_file)),
      snd fresh_file)"

text \<open>
  A device that answers \<^verbatim>\<open>1\<close> to every query, and a parser of plain decimal
  numerals (which \<^verbatim>\<open>float\<close> and \<^verbatim>\<open>int\<close> both accept), for examples.
\<close>

definition device_ones :: "gpib_event list \<Rightarrow> string \<Rightarrow> error + string" where
  "device_ones g q = Inr ''1''"

definition is_digit :: "char \<Rightarrow> bool" where
  "is_digit c = (48 \<le> (of_char c :: nat) \<and> (of_char c :: nat) \<le> 57)"

definition parse_numeral :: "string \<Rightarrow> int option" where
  "parse_numeral s =
     (if s \<noteq> [] \<and> list_all is_digit s
      then Some (foldl (\<lambda>n c. 10 * n + (int (of_char c) - 48)) 0 s)
      else None)"

definition environ_source :: environ where
  "environ_source =
     \<lparr>env_DEBUG = DEBUG_source, env_configuration = configuration_source,
      env_clock = clock_1s, env_stamp = ''20251128T120000'',
      env_rm = ''Resource Manager'', env_resources = [''GPIB2::24::INSTR''],
      env_rs = ''(GPIB2::24::INSTR)'', env_str_float = (\<lambda>x. ''194.0'')\<rparr>"

definition LS_source :: LAKESHORE where
  "LS_source = \<lparr>lsn = DEVICENAME configuration_source,
                hr = LAKESHORE_Heater_Resistance configuration_source, lsh = None\<rparr>"

section \<open>Properties of the model\<close>

lemma foldl_emit:
  "foldl (\<lambda>w d. emit (f d) w) w ds = w\<lparr>disk := disk w @ map f ds\<rparr>"
  by (induction ds arbitrary: w) (simp_all add: emit_def)

lemma foldl_disk:
  "foldl (\<lambda>w d. w\<lparr>disk := disk w @ [f d]\<rparr>) w ds = w\<lparr>disk := disk w @ map f ds\<rparr>"
  by (induction ds arbitrary: w) simp_all

lemma savedata_wait:
  "data self \<noteq> [] \<Longrightarrow> clk (ticks w) < time self \<Longrightarrow>
   savedata C clk (self, w) = (Inr (), (self, w\<lparr>ticks := Suc (ticks w)\<rparr>))"
  by (simp add: savedata_def monotonic_def)

lemma savedata_flush:
  "data self \<noteq> [] \<Longrightarrow> \<not> clk (ticks w) < time self \<Longrightarrow>
   savedata C clk (self, w) =
     (Inr (), (self\<lparr>headertext := (if truthy (headertext self) then None else headertext self),
                    data := [], time := clk (Suc (ticks w)) + SAVINGINTERVALS C\<rparr>,
               w\<lparr>ticks := Suc (Suc (ticks w)), disk := disk w @ flush_events self\<rparr>))"
  by (auto simp add: savedata_def monotonic_def flushheader_def truthy_def foldl_disk emit_def
      flush_events_def pending_header_def Let_def split: option.splits)

lemma savedata_empty:
  "data self = [] \<Longrightarrow> savedata C clk (self, w) = (Inr (), (self, w))"
  by (simp add: savedata_def)

lemma flushdata_empty:
  "data self = [] \<Longrightarrow>
   flushdata C clk (self, w) =
     (Inr (), (self\<lparr>time := clk (ticks w)\<rparr>, w\<lparr>ticks := Suc (ticks w)\<rparr>))"
  by (simp add: flushdata_def monotonic_def savedata_def)

lemma writes_append: "writes p (xs @ ys) = writes p xs @ writes p ys"
  by (induction p xs rule: writes.induct) simp_all

lemma writes_map_Fwrite: "writes p (map (Fwrite p) ts) = ts"
  by (induction ts) simp_all

lemma writes_flush_events:
  "writes (fp self) (flush_events self) = pending_header self @ map (\<lambda>d. d @ nl) (data self)"
proof -
  have "writes (fp self) (map (\<lambda>d. Fwrite (fp self) (d @ nl)) (data self))
        = map (\<lambda>d. d @ nl) (data self)"
    using writes_map_Fwrite [of "fp self" "map (\<lambda>d. d @ nl) (data self)"]
    by (simp add: comp_def)
  then show ?thesis
    by (simp add: flush_events_def writes_append writes_map_Fwrite)
qed

lemma conserved_ticks: "conserved (self, w) (self\<lparr>time := t\<rparr>, w\<lparr>ticks := n\<rparr>) []"
  unfolding conserved_def
  by (auto simp: pending_header_def intro!: exI [of _ "[]"])

lemma conserved_same: "conserved (self, w) (self, w\<lparr>ticks := n\<rparr>) []"
  unfolding conserved_def
  by (auto simp: pending_header_def intro!: exI [of _ "[]"])

lemma conserved_append: "conserved (self, w) (self\<lparr>data := data self @ [d]\<rparr>, w) [d]"
  unfolding conserved_def
  by (auto simp: pending_header_def intro!: exI [of _ "[]"])

lemma conserved_trans:
  assumes "conserved s s1 l1" and "conserved s1 s2 l2"
  shows "conserved s s2 (l1 @ l2)"
proof -
  obtain self w self1 w1 self2 w2 where s: "s = (self, w)" "s1 = (self1, w1)" "s2 = (self2, w2)"
    by (cases s, cases s1, cases s2) auto
  from assms(1) obtain H1 L1 where a:
    "fp self1 = fp self"
    "writes (fp self) (disk w1) = writes (fp self) (disk w) @ H1 @ map (\<lambda>d. d @ nl) L1"
    "H1 @ pending_header self1 = pending_header self"
    "L1 @ data self1 = data self @ l1"
    "L1 = [] \<or> pending_header self1 = []"
    "H1 = [] \<or> L1 \<noteq> []"
    unfolding conserved_def s by auto
  from assms(2) obtain H2 L2 where b:
    "fp self2 = fp self1"
    "writes (fp self1) (disk w2) = writes (fp self1) (disk w1) @ H2 @ map (\<lambda>d. d @ nl) L2"
    "H2 @ pending_header self2 = pending_header self1"
    "L2 @ data self2 = data self1 @ l2"
    "L2 = [] \<or> pending_header self2 = []"
    "H2 = [] \<or> L2 \<noteq> []"
    unfolding conserved_def s by auto
  have h2: "L1 \<noteq> [] \<Longrightarrow> H2 = []"
    using a(5) b(3) by auto
  have w: "writes (fp self) (disk w2)
           = writes (fp self) (disk w) @ (H1 @ H2) @ map (\<lambda>d. d @ nl) (L1 @ L2)"
    using a(1,2) b(2) h2 by (cases "L1 = []") auto
  have h: "(H1 @ H2) @ pending_header self2 = pending_header self"
    using a(3) b(3) by simp
  have l: "(L1 @ L2) @ data self2 = data self @ (l1 @ l2)"
    using a(4) b(4) by simp
  have p: "L1 @ L2 = [] \<or> pending_header self2 = []"
    using a(5) b(3,5) by auto
  have q: "H1 @ H2 = [] \<or> L1 @ L2 \<noteq> []"
    using a(6) b(6) by auto
  have "\<exists>H L. writes (fp self) (disk w2) = writes (fp self) (disk w) @ H @ map (\<lambda>d. d @ nl) L \<and>
           H @ pending_header self2 = pending_header self \<and>
           L @ data self2 = data self @ (l1 @ l2) \<and>
           (L = [] \<or> pending_header self2 = []) \<and>
           (H = [] \<or> L \<noteq> [])"
    using w h l p q by blast
  then show ?thesis
    unfolding conserved_def s using a(1) b(1) by simp
qed

lemma conserved_savedata:
  "\<exists>s'. savedata C clk (self, w) = (Inr (), s') \<and> conserved (self, w) s' []"
proof (cases "data self = []")
  case True
  then show ?thesis
    using conserved_same [of self w "ticks w"] by (simp add: savedata_empty)
next
  case False
  show ?thesis
  proof (cases "clk (ticks w) < time self")
    case True
    then show ?thesis
      using False conserved_same [of self w "Suc (ticks w)"] by (simp add: savedata_wait)
  next
    case wait: False
    have "conserved (self, w)
       (self\<lparr>headertext := (if truthy (headertext self) then None else headertext self),
                    data := [], time := clk (Suc (ticks w)) + SAVINGINTERVALS C\<rparr>,
               w\<lparr>ticks := Suc (Suc (ticks w)), disk := disk w @ flush_events self\<rparr>) []"
      unfolding conserved_def using False
      by (auto simp: writes_append writes_flush_events pending_header_def truthy_def
          split: option.splits
          intro!: exI [of _ "pending_header self"] exI [of _ "data self"])
    then show ?thesis
      using False wait by (simp add: savedata_flush)
  qed
qed

lemma conserved_writedata:
  "\<exists>s'. writedata C clk d (self, w) = (Inr (), s') \<and> conserved (self, w) s' [d]"
proof -
  obtain s' where s': "savedata C clk (self\<lparr>data := data self @ [d]\<rparr>, w) = (Inr (), s')"
    "conserved (self\<lparr>data := data self @ [d]\<rparr>, w) s' []"
    using conserved_savedata by blast
  have "conserved (self, w) s' ([d] @ [])"
    using conserved_trans [OF conserved_append s'(2)] .
  then show ?thesis using s'(1) by (simp add: writedata_def)
qed

lemma conserved_flushdata:
  "\<exists>s'. flushdata C clk (self, w) = (Inr (), s') \<and> conserved (self, w) s' []"
proof -
  obtain s' where s':
    "savedata C clk (self\<lparr>time := clk (ticks w)\<rparr>, w\<lparr>ticks := Suc (ticks w)\<rparr>) = (Inr (), s')"
    "conserved (self\<lparr>time := clk (ticks w)\<rparr>, w\<lparr>ticks := Suc (ticks w)\<rparr>) s' []"
    using conserved_savedata by blast
  have "conserved (self, w) s' ([] @ [])"
    using conserved_trans [OF conserved_ticks s'(2)] .
  then show ?thesis using s'(1) by (simp add: flushdata_def monotonic_def)
qed

lemma conserved_run_op:
  "\<exists>s'. run_op C clk x s = (Inr (), s') \<and> conserved s s' (lines_of [x])"
  using conserved_writedata conserved_flushdata by (cases x; cases s) simp_all

lemma lines_of_append: "lines_of (xs @ ys) = lines_of xs @ lines_of ys"
  by (induction xs rule: lines_of.induct) simp_all

lemma lines_of_Cons: "lines_of (x # xs) = lines_of [x] @ lines_of xs"
  by (cases x) simp_all

lemma conserved_refl: "conserved s s []"
  unfolding conserved_def by (cases s) (auto intro!: exI [of _ "[]"])

lemma conserved_run:
  "\<exists>s'. run C clk ops s = (Inr (), s') \<and> conserved s s' (lines_of ops)"
proof (induction ops arbitrary: s)
  case Nil
  then show ?case by (simp add: ret_def conserved_refl)
next
  case (Cons x xs)
  obtain s1 where s1: "run_op C clk x s = (Inr (), s1)" "conserved s s1 (lines_of [x])"
    using conserved_run_op by blast
  obtain s2 where s2: "run C clk xs s1 = (Inr (), s2)" "conserved s1 s2 (lines_of xs)"
    using Cons.IH by blast
  have "conserved s s2 (lines_of (x # xs))"
    using conserved_trans [OF s1(2) s2(2)] lines_of_Cons [of x xs] by simp
  then show ?case using s1(1) s2(1) by (simp add: bind_def)
qed

lemma run_append:
  "run C clk (xs @ ys) = bind (run C clk xs) (\<lambda>_. run C clk ys)"
  by (induction xs) (auto simp: bind_def ret_def split: prod.splits sum.splits)

lemma flush_events_time [simp]: "flush_events (self\<lparr>time := t\<rparr>) = flush_events self"
  by (simp add: flush_events_def pending_header_def)

lemma flushdata_flush:
  assumes "data self \<noteq> []" and "clk (ticks w) \<le> clk (Suc (ticks w))"
  shows "flushdata C clk (self, w) =
     (Inr (), (self\<lparr>headertext := (if truthy (headertext self) then None else headertext self),
                    data := [], time := clk (Suc (Suc (ticks w))) + SAVINGINTERVALS C\<rparr>,
               w\<lparr>ticks := Suc (Suc (Suc (ticks w))), disk := disk w @ flush_events self\<rparr>))"
  using assms savedata_flush [of "self\<lparr>time := clk (ticks w)\<rparr>" clk "w\<lparr>ticks := Suc (ticks w)\<rparr>" C]
  by (simp add: flushdata_def monotonic_def)

lemma flushdata_clears:
  assumes "clk (ticks w) \<le> clk (Suc (ticks w))"
    and "flushdata C clk (self, w) = (r, (self', w'))"
  shows "data self' = []"
proof (cases "data self = []")
  case True
  then show ?thesis using assms(2) by (auto simp add: flushdata_empty)
next
  case False
  then show ?thesis
    using assms by (auto simp add: flushdata_flush)
qed

lemma fresh_file_eq:
  "fresh_file =
     (\<lparr>created = ''20251128T120000'', fp = ''./d.dat'', headertext = Some [], data = [],
       time = 10\<rparr>,
      \<lparr>ticks = 1, disk = [Fopen ''./d.dat'' ''w'', Fclose ''./d.dat''], stdout = [], gpib = []\<rparr>)"
  by (simp add: fresh_file_def monitor_file_init_def DEBUG_source_def configuration_source_def
      world0_def clock_1s_def debug_def upper_def upper_char_def monotonic_def emit_def
      rstrip_slash_def Let_def)

lemma mono_clock_1s: "mono clock_1s"
  by (simp add: mono_def clock_1s_def)

lemma headed_file_eq:
  "headed_file =
     (\<lparr>created = ''20251128T120000'', fp = ''./d.dat'',
       headertext = Some (''# column 07 : Heater Value [W]'' @ nl), data = [], time = 10\<rparr>,
      \<lparr>ticks = 1, disk = [Fopen ''./d.dat'' ''w'', Fclose ''./d.dat''], stdout = [], gpib = []\<rparr>)"
  by (simp add: headed_file_def fresh_file_eq writeheaderblock_def blocklines_def nl_def
      lstrip_def isspace_def ret_def Let_def)

lemma file_content_append:
  "file_content p c (xs @ ys) = file_content p (file_content p c xs) ys"
  by (induction p c xs rule: file_content.induct) simp_all

lemma file_content_appending:
  "appending p es \<Longrightarrow> file_content p c es = c @ concat (writes p es)"
  by (induction p c es rule: file_content.induct) auto

lemma appending_append: "appending p (xs @ ys) = (appending p xs \<and> appending p ys)"
  by (induction p xs rule: appending.induct) simp_all

lemma appending_map_Fwrite: "appending p (map (Fwrite q) ts)"
  by (induction ts) simp_all

lemma appending_flush_events: "appending p (flush_events self)"
proof -
  have "appending p (map (\<lambda>d. Fwrite (fp self) (d @ nl)) (data self))"
    using appending_map_Fwrite [of p "fp self" "map (\<lambda>d. d @ nl) (data self)"]
    by (simp add: comp_def)
  then show ?thesis
    by (simp add: flush_events_def appending_append appending_map_Fwrite)
qed

lemma savedata_appends:
  "\<exists>es. disk (snd (snd (savedata C clk (self, w)))) = disk w @ es \<and> appending p es"
proof (cases "data self = []")
  case True
  then show ?thesis by (simp add: savedata_empty)
next
  case False
  show ?thesis
  proof (cases "clk (ticks w) < time self")
    case True
    then show ?thesis using False by (simp add: savedata_wait)
  next
    case wait: False
    show ?thesis
      using False wait appending_flush_events [of p self] by (simp add: savedata_flush)
  qed
qed

lemma run_op_appends:
  "\<exists>es. disk (snd (snd (run_op C clk x s))) = disk (snd s) @ es \<and> appending p es"
proof (cases s)
  case (Pair self w)
  show ?thesis
  proof (cases x)
    case (Writedata d)
    then show ?thesis
      using Pair savedata_appends [of C clk "self\<lparr>data := data self @ [d]\<rparr>" w p]
      by (simp add: writedata_def)
  next
    case Flushdata
    then show ?thesis
      using Pair savedata_appends [of C clk "self\<lparr>time := clk (ticks w)\<rparr>"
          "w\<lparr>ticks := Suc (ticks w)\<rparr>" p]
      by (simp add: flushdata_def monotonic_def)
  qed
qed

lemma run_appends:
  "\<exists>es. disk (snd (snd (run C clk ops s))) = disk (snd s) @ es \<and> appending p es"
proof (induction ops arbitrary: s)
  case Nil
  then show ?case by (simp add: ret_def)
next
  case (Cons x xs)
  obtain s1 where s1: "run_op C clk x s = (Inr (), s1)"
    using conserved_run_op by blast
  obtain e1 where e1: "disk (snd s1) = disk (snd s) @ e1" "appending p e1"
    using run_op_appends [of C clk x s p] s1 by auto
  obtain e2 where e2: "disk (snd (snd (run C clk xs s1))) = disk (snd s1) @ e2" "appending p e2"
    using Cons.IH by blast
  have "disk (snd (snd (run C clk (x # xs) s))) = disk (snd s) @ (e1 @ e2)"
    using s1 e1 e2 by (simp add: bind_def)
  moreover have "appending p (e1 @ e2)"
    using e1 e2 by (simp add: appending_append)
  ultimately show ?case by blast
qed

lemma run_file_content:
  assumes "run C clk ops (self, w) = (r, (self', w'))"
    and "writes p (disk w') = writes p (disk w) @ X"
  shows "file_content p c (disk w') = file_content p c (disk w) @ concat X"
proof -
  obtain es where es: "disk w' = disk w @ es" "appending p es"
    using run_appends [of C clk ops "(self, w)" p] assms(1) by auto
  have "writes p es = X"
    using assms(2) es(1) by (simp add: writes_append)
  then show ?thesis
    using es by (simp add: file_content_append file_content_appending)
qed

lemma run_then_flush:
  assumes "mono clk"
  shows "\<exists>self' w'.
     run C clk (map Writedata ds @ [Flushdata]) (self, w) = (Inr (), (self', w')) \<and>
     data self' = [] \<and>
     writes (fp self) (disk w') =
       writes (fp self) (disk w) @
         (if data self @ ds = [] then []
          else pending_header self @ map (\<lambda>d. d @ nl) (data self @ ds))"
proof -
  obtain s1 where s1: "run C clk (map Writedata ds) (self, w) = (Inr (), s1)"
    using conserved_run by blast
  obtain self1 w1 where p1: "s1 = (self1, w1)" by (cases s1)
  obtain s2 where s2: "flushdata C clk (self1, w1) = (Inr (), s2)"
    using conserved_flushdata by blast
  obtain self' w' where p2: "s2 = (self', w')" by (cases s2)
  have r: "run C clk (map Writedata ds @ [Flushdata]) (self, w) = (Inr (), (self', w'))"
    using s1 s2 p1 p2 by (simp add: run_append bind_def ret_def)
  have "clk (ticks w1) \<le> clk (Suc (ticks w1))"
    using assms by (simp add: monoD)
  then have empty: "data self' = []"
    using flushdata_clears s2 p2 by blast
  have l: "lines_of (map Writedata ds @ [Flushdata]) = ds"
    by (induction ds) simp_all
  obtain s' where "run C clk (map Writedata ds @ [Flushdata]) (self, w) = (Inr (), s')"
    and c: "conserved (self, w) s' (lines_of (map Writedata ds @ [Flushdata]))"
    using conserved_run by blast
  with r have c': "conserved (self, w) (self', w') ds" using l by simp
  then obtain H L where
    w: "writes (fp self) (disk w') = writes (fp self) (disk w) @ H @ map (\<lambda>d. d @ nl) L"
    and h: "H @ pending_header self' = pending_header self"
    and ll: "L @ data self' = data self @ ds"
    and p: "L = [] \<or> pending_header self' = []"
    and q: "H = [] \<or> L \<noteq> []"
    unfolding conserved_def by auto
  have L: "L = data self @ ds" using ll empty by simp
  have "H @ map (\<lambda>d. d @ nl) L =
      (if data self @ ds = [] then []
          else pending_header self @ map (\<lambda>d. d @ nl) (data self @ ds))"
    using L h p q by auto
  then show ?thesis using r empty w by simp
qed

lemma writedata_wait:
  "clk (ticks w) < time self \<Longrightarrow>
   writedata C clk d (self, w) =
     (Inr (), (self\<lparr>data := data self @ [d]\<rparr>, w\<lparr>ticks := Suc (ticks w)\<rparr>))"
  using savedata_wait [of "self\<lparr>data := data self @ [d]\<rparr>" clk w C]
  by (simp add: writedata_def)

lemma writedata_flush:
  "\<not> clk (ticks w) < time self \<Longrightarrow>
   writedata C clk d (self, w) =
     (Inr (), (self\<lparr>headertext := (if truthy (headertext self) then None else headertext self),
                    data := [], time := clk (Suc (ticks w)) + SAVINGINTERVALS C\<rparr>,
               w\<lparr>ticks := Suc (Suc (ticks w)),
                 disk := disk w @ flush_events (self\<lparr>data := data self @ [d]\<rparr>)\<rparr>))"
  using savedata_flush [of "self\<lparr>data := data self @ [d]\<rparr>" clk w C]
  by (simp add: writedata_def)

lemma flush_events_nonempty: "flush_events self \<noteq> []"
  by (simp add: flush_events_def)

lemma writedata_flushed_iff:
  "(disk (snd (snd (writedata C clk d (self, w)))) \<noteq> disk w) = (time self \<le> clk (ticks w))"
  by (cases "clk (ticks w) < time self")
    (simp_all add: writedata_wait writedata_flush flush_events_nonempty)

text \<open>The deadline, once set by a flush, stays one set by a later reading.\<close>

lemma writedata_deadline:
  assumes "k \<le> ticks w" and "\<exists>j\<ge>k. time self = clk j + SAVINGINTERVALS C"
    and "writedata C clk d (self, w) = (r, (self', w'))"
  shows "k \<le> ticks w' \<and> (\<exists>j\<ge>k. time self' = clk j + SAVINGINTERVALS C)"
proof (cases "clk (ticks w) < time self")
  case True
  then show ?thesis using assms by (auto simp: writedata_wait)
next
  case False
  have k: "k \<le> Suc (ticks w)" using assms(1) by simp
  have t: "time self' = clk (Suc (ticks w)) + SAVINGINTERVALS C" "ticks w' = Suc (Suc (ticks w))"
    using assms(3) False by (auto simp: writedata_flush)
  have "\<exists>j\<ge>k. time self' = clk j + SAVINGINTERVALS C"
    using k t(1) by blast
  then show ?thesis using k t(2) by simp
qed

lemma run_writes_deadline:
  assumes "k \<le> ticks w" and "\<exists>j\<ge>k. time self = clk j + SAVINGINTERVALS C"
    and "run C clk (map Writedata ds) (self, w) = (r, (self', w'))"
  shows "k \<le> ticks w' \<and> (\<exists>j\<ge>k. time self' = clk j + SAVINGINTERVALS C)"
  using assms
proof (induction ds arbitrary: self w)
  case Nil
  then show ?case by (auto simp: ret_def)
next
  case (Cons d ds)
  obtain s1 where s1: "writedata C clk d (self, w) = (Inr (), s1)"
    using conserved_writedata by blast
  obtain self1 w1 where p: "s1 = (self1, w1)" by (cases s1)
  have a: "k \<le> ticks w1 \<and> (\<exists>j\<ge>k. time self1 = clk j + SAVINGINTERVALS C)"
    using writedata_deadline [OF Cons.prems(1,2)] s1 p by blast
  have "run C clk (map Writedata ds) (self1, w1) = (r, (self', w'))"
    using Cons.prems(3) s1 p by (simp add: bind_def)
  then show ?case using Cons.IH a by blast
qed

lemma flush_spacing:
  assumes "mono clk"
    and "disk (snd (snd (writedata C clk d s1))) \<noteq> disk (snd s1)"
    and "s3 = snd (run C clk (map Writedata ds) (snd (writedata C clk d s1)))"
    and "disk (snd (snd (writedata C clk d' s3))) \<noteq> disk (snd s3)"
  shows "clk (ticks (snd s1)) + SAVINGINTERVALS C \<le> clk (ticks (snd s3))"
proof -
  obtain self1 w1 where p1: "s1 = (self1, w1)" by (cases s1)
  obtain self3 w3 where p3: "s3 = (self3, w3)" by (cases s3)
  have f1: "\<not> clk (ticks w1) < time self1"
    using assms(2) writedata_flushed_iff [of C clk d self1 w1] p1 by simp
  let ?self2 = "self1\<lparr>headertext := (if truthy (headertext self1) then None else headertext self1),
                    data := [], time := clk (Suc (ticks w1)) + SAVINGINTERVALS C\<rparr>"
  let ?w2 = "w1\<lparr>ticks := Suc (Suc (ticks w1)),
                 disk := disk w1 @ flush_events (self1\<lparr>data := data self1 @ [d]\<rparr>)\<rparr>"
  have s2: "snd (writedata C clk d s1) = (?self2, ?w2)"
    using f1 p1 by (simp add: writedata_flush)
  obtain r where r: "run C clk (map Writedata ds) (?self2, ?w2) = (r, (self3, w3))"
    using assms(3) s2 p3 by (metis prod.collapse)
  have "Suc (ticks w1) \<le> ticks ?w2" by simp
  moreover have "\<exists>j\<ge>Suc (ticks w1). time ?self2 = clk j + SAVINGINTERVALS C"
    by auto
  ultimately obtain j where j: "Suc (ticks w1) \<le> j" "time self3 = clk j + SAVINGINTERVALS C"
    using run_writes_deadline [OF _ _ r] by blast
  have "time self3 \<le> clk (ticks w3)"
    using assms(4) writedata_flushed_iff [of C clk d' self3 w3] p3 by simp
  moreover have "clk (ticks w1) \<le> clk j"
    using assms(1) j(1) by (simp add: monoD)
  ultimately show ?thesis using j(2) p1 p3 by simp
qed

lemma pending_header_after_flush:
  "pending_header (self\<lparr>headertext := (if truthy (headertext self) then None else headertext self),
       data := ds, time := t\<rparr>) = []"
  by (simp add: pending_header_def truthy_def split: option.splits)

lemma mono_clock_10s: "mono clock_10s"
  by (simp add: mono_def clock_10s_def)

lemmas writer_defs = writedata_def flushdata_def savedata_def flushheader_def monotonic_def
  emit_def truthy_def bind_def ret_def Let_def nl_def

lemma pending_header_data [simp]: "pending_header (self\<lparr>data := ds\<rparr>) = pending_header self"
  by (simp add: pending_header_def)

lemma headed_file_parts:
  "data (fst headed_file) = []"
  "fp (fst headed_file) = ''./d.dat''"
  "pending_header (fst headed_file) = [''# column 07 : Heater Value [W]'' @ nl]"
  "disk (snd headed_file) = [Fopen ''./d.dat'' ''w'', Fclose ''./d.dat'']"
  "ticks (snd headed_file) = 1"
  "time (fst headed_file) = 10"
  by (simp_all add: headed_file_eq pending_header_def)

lemma monitor_file_init_eq:
  "monitor_file_init DEBUG C clk stamp fp0 fn0 w =
     (\<lparr>created = stamp,
       fp = (if debug DEBUG [''TEMPFILE''] then TEMPFILEPATH C @ ''/'' @ TEMPFILENAME C
             else rstrip_slash fp0 @ ''/'' @ fn0 @ stamp @ ''.dat''),
       headertext = Some [], data = [], time = clk (ticks w) + SAVINGINTERVALS C\<rparr>,
      w\<lparr>ticks := Suc (ticks w),
        disk := disk w @
          (if debug DEBUG [''TEMPFILE'']
           then [Fopen (TEMPFILEPATH C @ ''/'' @ TEMPFILENAME C) ''w'',
                 Fclose (TEMPFILEPATH C @ ''/'' @ TEMPFILENAME C)]
           else [])\<rparr>)"
  by (simp add: monitor_file_init_def monotonic_def emit_def Let_def)

lemma headerlines_Some:
  "headertext self = Some h \<Longrightarrow>
   \<exists>h'. headerlines n ls self = (Inr (), self\<lparr>headertext := Some h'\<rparr>)"
proof (induction ls arbitrary: self h)
  case Nil
  then show ?case by (auto simp: ret_def intro!: exI [of _ h])
next
  case (Cons l ls)
  let ?self = "self\<lparr>headertext := Some (h @ ''# '' @ drop n l @ nl)\<rparr>"
  have "headertext ?self = Some (h @ ''# '' @ drop n l @ nl)" by simp
  from Cons.IH [OF this] obtain h' where
    "headerlines n ls ?self = (Inr (), ?self\<lparr>headertext := Some h'\<rparr>)" by blast
  then show ?case using Cons.prems by auto
qed

lemma writeheaderblock_Some:
  "headertext self = Some h \<Longrightarrow>
   \<exists>h'. writeheaderblock b self = (Inr (), self\<lparr>headertext := Some h'\<rparr>)"
  using headerlines_Some by (simp add: writeheaderblock_def Let_def)

lemma scenario_A_start:
  "monitor_file_init DEBUG_source configuration_source clock_A ''20251128T120000''
     (FILEPATH configuration_source) ''LS370_'' world0 = (fst fresh_file, snd fresh_file)"
  "writeheaderblock (nl @ ''  column 07 : Heater Value [W]'' @ nl) (fst fresh_file)
     = (Inr (), fst headed_file)"
  "snd fresh_file = snd headed_file"
  by (simp_all add: headed_file_eq fresh_file_eq monitor_file_init_def DEBUG_source_def
      configuration_source_def world0_def clock_A_def debug_def upper_def upper_char_def
      monotonic_def emit_def rstrip_slash_def Let_def writeheaderblock_def blocklines_def nl_def
      lstrip_def isspace_def ret_def)

lemma headerlines_None:
  "headertext self = None \<Longrightarrow>
   headerlines n ls self = (if ls = [] then (Inr (), self) else (Inl TypeError, self))"
  by (cases ls) (simp_all add: ret_def)

lemma query_stub:
  assumes "debug DEBUG [''NOGPIB'']"
  shows "query DEBUG dev self q w =
     (Inr ''1'',
      w\<lparr>stdout := stdout w @
            (if debug DEBUG [''LOG_GPIB''] then [lsn self @ '' query '' @ quoted q] else [])
            @ [''skipped... return '' @ quoted ''1'']\<rparr>)"
  using assms by (simp add: query_def print_def Let_def)

lemma bind_convert:
  "bind (convert p r) f w = (case p r of None \<Rightarrow> (Inl ValueError, w) | Some v \<Rightarrow> f v w)"
  by (simp add: bind_def convert_def split: option.splits)

lemma bind_query_stub:
  assumes "debug DEBUG [''NOGPIB'']"
  shows "bind (query DEBUG dev self q) f w =
     f ''1''
       (w\<lparr>stdout := stdout w @
            (if debug DEBUG [''LOG_GPIB''] then [lsn self @ '' query '' @ quoted q] else [])
            @ [''skipped... return '' @ quoted ''1'']\<rparr>)"
  using query_stub [OF assms] by (simp add: bind_def)

lemma read_stub:
  assumes "debug DEBUG [''NOGPIB'']"
  shows "fst (read DEBUG dev py_float py_int self w) =
       (case (py_float ''1'', py_float ''1'', py_float ''1'', py_int ''1'', py_float ''1'') of
          (Some T1R, Some T1T, Some TSP, Some HTR, Some HTV) \<Rightarrow> Inr (T1R, T1T, TSP, HTR, HTV)
        | _ \<Rightarrow> Inl ValueError) \<and>
     gpib (snd (read DEBUG dev py_float py_int self w)) = gpib w"
proof -
  note q = bind_query_stub [OF assms] bind_convert
  show ?thesis
  proof (cases "py_float ''1''")
    case None
    then show ?thesis by (simp add: read_def q)
  next
    case a: (Some x)
    show ?thesis
    proof (cases "py_int ''1''")
      case None
      then show ?thesis using a by (simp add: read_def q)
    next
      case (Some y)
      then show ?thesis using a by (simp add: read_def q ret_def)
    qed
  qed
qed

lemma parse_numeral_1: "parse_numeral ''1'' = Some 1"
  by (simp add: parse_numeral_def is_digit_def)

lemma parse_numeral_query: "parse_numeral ''?'' = None"
  by (simp add: parse_numeral_def is_digit_def)

lemma debug_flags:
  "\<not> debug [] [''NOGPIB'']" "debug DEBUG_source [''NOGPIB'']"
  by (simp_all add: debug_def DEBUG_source_def upper_def upper_char_def)

lemma LS_opened: "lsh (fst (Open [] LS_source world0)) = Some ''GPIB2::24::INSTR''"
  by (simp add: Open_def LS_source_def configuration_source_def debug_flags debug_def)

lemma digit_not_tab: "k < 10 \<Longrightarrow> digit_char k \<noteq> CHR 0x09"
proof -
  assume "k < 10"
  then have "k \<in> {0, 1, 2, 3, 4, 5, 6, 7, 8, 9}" by auto
  then show ?thesis by (auto simp: digit_char_def)
qed

lemma digits_no_tab: "CHR 0x09 \<notin> set (digits n)"
proof (induction n rule: digits.induct)
  case (1 n)
  show ?case
  proof (cases "n < 10")
    case True
    then show ?thesis
      using digit_not_tab [of n] by (subst digits.simps) auto
  next
    case False
    have "n mod 10 < 10" by simp
    then have "digit_char (n mod 10) \<noteq> CHR 0x09"
      by (rule digit_not_tab)
    then show ?thesis
      using 1 False by (subst digits.simps) auto
  qed
qed

lemma digits_length_1: "n < 10 \<Longrightarrow> digits n = [digit_char n]"
  by (subst digits.simps) simp

lemma digits_length_2: "10 \<le> n \<Longrightarrow> n < 100 \<Longrightarrow>
   digits n = [digit_char (n div 10), digit_char (n mod 10)]"
  by (subst digits.simps) (simp add: digits_length_1)

lemma zero_pad_2: "n < 100 \<Longrightarrow> length (zero_pad 2 n) = 2"
  by (cases "n < 10") (simp_all add: zero_pad_def digits_length_1 digits_length_2)

lemma digits_length: "n < 10 ^ k \<Longrightarrow> 0 < k \<Longrightarrow> length (digits n) \<le> k"
proof (induction n arbitrary: k rule: digits.induct)
  case (1 n)
  show ?case
  proof (cases "n < 10")
    case True
    then show ?thesis using 1(3) by (simp add: digits_length_1)
  next
    case False
    obtain j where j: "k = Suc j" using 1(3) by (cases k) auto
    have "j \<noteq> 0" using False 1(2) j by (cases j) auto
    moreover have "n div 10 < 10 ^ j" using 1(2) j by (simp add: less_mult_imp_div_less mult.commute)
    ultimately have "length (digits (n div 10)) \<le> j" using 1(1) False by simp
    then show ?thesis using j False by (subst digits.simps) simp
  qed
qed

lemma zero_pad_length: "n < 10 ^ k \<Longrightarrow> 0 < k \<Longrightarrow> length (zero_pad k n) = k"
  using digits_length [of n k] by (simp add: zero_pad_def)

lemma zero_pad_no_tab: "CHR 0x09 \<notin> set (zero_pad k n)"
  using digits_no_tab [of n] by (auto simp: zero_pad_def)

lemma str_int_no_tab: "CHR 0x09 \<notin> set (str_int i)"
  using digits_no_tab by (simp add: str_int_def)

lemma split_on_no_sep: "c \<notin> set xs \<Longrightarrow> split_on c xs = [xs]"
  by (induction xs) auto

lemma split_on_sep: "c \<notin> set xs \<Longrightarrow> split_on c (xs @ c # ys) = xs # split_on c ys"
  by (induction xs) auto

lemma strftime_stamp:
  assumes "hour t < 24" "minute t < 60" "second t < 60" "microsecond t < 1000000"
  shows "length (strftime_HMSf t) = 15"
    and "take (length (strftime_HMSf t) - 5) (strftime_HMSf t) =
       zero_pad 2 (hour t) @ '':'' @ zero_pad 2 (minute t) @ '':'' @ zero_pad 2 (second t)
         @ ''.'' @ take 1 (zero_pad 6 (microsecond t))"
proof -
  have h: "length (zero_pad 2 (hour t)) = 2" using assms(1) by (simp add: zero_pad_length)
  have m: "length (zero_pad 2 (minute t)) = 2" using assms(2) by (simp add: zero_pad_length)
  have s: "length (zero_pad 2 (second t)) = 2" using assms(3) by (simp add: zero_pad_length)
  have u: "length (zero_pad 6 (microsecond t)) = 6" using assms(4) by (simp add: zero_pad_length)
  show "length (strftime_HMSf t) = 15"
    by (simp add: strftime_HMSf_def h m s u)
  then show "take (length (strftime_HMSf t) - 5) (strftime_HMSf t) =
       zero_pad 2 (hour t) @ '':'' @ zero_pad 2 (minute t) @ '':'' @ zero_pad 2 (second t)
         @ ''.'' @ take 1 (zero_pad 6 (microsecond t))"
    by (simp add: strftime_HMSf_def h m s u)
qed

lemma stamp_no_tab:
  "CHR 0x09 \<notin> set (zero_pad 2 a @ '':'' @ zero_pad 2 b @ '':'' @ zero_pad 2 c
         @ ''.'' @ take 1 (zero_pad 6 d))"
  using zero_pad_no_tab [of 2 a] zero_pad_no_tab [of 2 b] zero_pad_no_tab [of 2 c]
    zero_pad_no_tab [of 6 d] in_set_takeD [of "CHR 0x09" 1 "zero_pad 6 d"]
  by auto

lemma split_line:
  assumes "t \<notin> set f1" "t \<notin> set f2" "t \<notin> set f3" "t \<notin> set f4" "t \<notin> set f5"
    "t \<notin> set f6" "t \<notin> set f7" "t \<notin> set e"
  shows "split_on t ((f1 @ [t] @ f2 @ [t] @ f3 @ [t] @ f4 @ [t] @ f5 @ [t] @ f6 @ [t] @ f7 @ [t]) @ e)
     = [f1, f2, f3, f4, f5, f6, f7, e]"
  using assms by (simp add: split_on_sep split_on_no_sep)

lemma example_stamp:
  "strftime_HMSf \<lparr>hour = 12, minute = 34, second = 56, microsecond = 789012\<rparr>
     = ''12:34:56.789012''"
  "zero_pad 2 12 = ''12''" "zero_pad 2 34 = ''34''" "zero_pad 2 56 = ''56''"
  "zero_pad 6 789012 = ''789012''" "str_int 1 = ''1''"
  by (simp_all add: strftime_HMSf_def zero_pad_def digits.simps str_int_def digit_char_def)

lemma ask_step:
  "bind (query DEBUG dev self q) (\<lambda>r. bind (convert p r) f) w =
     (case (case (if debug DEBUG [''NOGPIB''] then Inr ''1''
                  else if lsh self = None then Inl AttributeError
                  else dev (gpib w) q) of
              Inl e \<Rightarrow> Inl e
            | Inr r \<Rightarrow> (case p r of None \<Rightarrow> Inl ValueError | Some x \<Rightarrow> Inr x)) of
        Inl e \<Rightarrow> (Inl e, snd (query DEBUG dev self q w))
      | Inr x \<Rightarrow> f x (snd (query DEBUG dev self q w)))"
  by (auto simp: bind_def convert_def query_def print_def Let_def split: option.splits sum.splits)

lemma query_gpib:
  "gpib (snd (query DEBUG dev self q w)) =
     gpib w @ (if debug DEBUG [''NOGPIB''] \<or> lsh self = None then [] else [Gquery q])"
  by (auto simp: query_def print_def Let_def split: option.splits)

lemma read_chain:
  assumes "\<And>f :: 'f \<Rightarrow> ('f \<times> 'f \<times> 'f \<times> int \<times> 'f, world) py. bind (query DEBUG dev self ''RDGR? 1'') (\<lambda>r. bind (convert py_float r) f) w =
        (case v1 of Inl e \<Rightarrow> (Inl e, w1) | Inr x \<Rightarrow> f x w1)"
    and "\<And>f :: 'f \<Rightarrow> ('f \<times> 'f \<times> 'f \<times> int \<times> 'f, world) py. bind (query DEBUG dev self ''RDGK? 1'') (\<lambda>r. bind (convert py_float r) f) w1 =
        (case v2 of Inl e \<Rightarrow> (Inl e, w2) | Inr x \<Rightarrow> f x w2)"
    and "\<And>f :: 'f \<Rightarrow> ('f \<times> 'f \<times> 'f \<times> int \<times> 'f, world) py. bind (query DEBUG dev self ''SETP?'') (\<lambda>r. bind (convert py_float r) f) w2 =
        (case v3 of Inl e \<Rightarrow> (Inl e, w3) | Inr x \<Rightarrow> f x w3)"
    and "\<And>f :: int \<Rightarrow> ('f \<times> 'f \<times> 'f \<times> int \<times> 'f, world) py. bind (query DEBUG dev self ''HTRRNG?'') (\<lambda>r. bind (convert py_int r) f) w3 =
        (case v4 of Inl e \<Rightarrow> (Inl e, w4) | Inr x \<Rightarrow> f x w4)"
    and "\<And>f :: 'f \<Rightarrow> ('f \<times> 'f \<times> 'f \<times> int \<times> 'f, world) py. bind (query DEBUG dev self ''HTR?'') (\<lambda>r. bind (convert py_float r) f) w4 =
        (case v5 of Inl e \<Rightarrow> (Inl e, w5) | Inr x \<Rightarrow> f x w5)"
  shows "read DEBUG dev py_float py_int self w =
     (case v1 of Inl e \<Rightarrow> (Inl e, w1) | Inr T1R \<Rightarrow>
      case v2 of Inl e \<Rightarrow> (Inl e, w2) | Inr T1T \<Rightarrow>
      case v3 of Inl e \<Rightarrow> (Inl e, w3) | Inr TSP \<Rightarrow>
      case v4 of Inl e \<Rightarrow> (Inl e, w4) | Inr HTR \<Rightarrow>
      case v5 of Inl e \<Rightarrow> (Inl e, w5) | Inr HTV \<Rightarrow> (Inr (T1R, T1T, TSP, HTR, HTV), w5))"
  by (simp add: read_def assms ret_def split: sum.splits)

lemma world0_gpib: "gpib world0 = []"
  by (simp add: world0_def)

lemmas instrument_defs = read_def bind_def ret_def convert_def query_def print_def Open_def
  LS_source_def configuration_source_def world0_def debug_def upper_def upper_char_def Let_def

lemma split_on_nonempty: "split_on c xs \<noteq> []"
  by (induction xs) (auto split: list.splits)

lemma split_on_two: "c \<in> set xs \<Longrightarrow> 2 \<le> length (split_on c xs)"
proof (induction xs)
  case Nil
  then show ?case by simp
next
  case (Cons x xs)
  show ?case
  proof (cases "x = c")
    case True
    then show ?thesis
      using split_on_nonempty [of c xs] by (cases "split_on c xs") auto
  next
    case False
    then have "c \<in> set xs" using Cons.prems by simp
    then have "2 \<le> length (split_on c xs)" using Cons.IH by simp
    then show ?thesis using False by (cases "split_on c xs") auto
  qed
qed

lemma blocklines_header_block: "blocklines (header_block name stamp resistance) \<noteq> []"
proof -
  let ?X = "''file    : '' @ name @ nl
       @ ''content : '' @ [CHR 0x22] @ ''LakeShore370'' @ [CHR 0x22] @ '' raw data'' @ nl
       @ ''created : '' @ stamp @ nl
       @ ''author  : Roch Schanen LakeShore.py V'' @ VERSION @ nl
       @ ''Heater Resistance : '' @ resistance @ '' [Ohms]'' @ nl
       @ ''column 01 : time stamp [HH:MM:SS.F]'' @ nl
       @ ''column 02 : time in seconds [s]'' @ nl
       @ ''column 03 : Thermometer 1 Resistance [Ohms]'' @ nl
       @ ''column 04 : Thermometer 1 Temperature [K] '' @ nl
       @ ''column 05 : Temperature Set-point [K]'' @ nl
       @ ''column 06 : Heater Range [index] '' @ nl
       @ ''column 07 : Heater Value [W]'' @ nl"
  have "CHR 0x0A \<in> set ?X" by (simp add: nl_def)
  then have "2 \<le> length (split_on (CHR 0x0A) ?X)" by (rule split_on_two)
  then have "butlast (split_on (CHR 0x0A) ?X) \<noteq> []"
    by (cases "split_on (CHR 0x0A) ?X" rule: rev_cases) auto
  moreover have "header_block name stamp resistance = CHR 0x0A # ?X"
    by (simp add: header_block_def nl_def)
  ultimately show ?thesis by (simp add: blocklines_def)
qed

lemma headerlines_grows:
  "headertext self = Some h \<Longrightarrow>
   \<exists>t. headerlines n ls self = (Inr (), self\<lparr>headertext := Some (h @ t)\<rparr>) \<and>
       (ls = [] \<or> t \<noteq> [])"
proof (induction ls arbitrary: self h)
  case Nil
  then show ?case by (auto simp: ret_def intro!: exI [of _ "[]"])
next
  case (Cons l ls)
  let ?self = "self\<lparr>headertext := Some (h @ ''# '' @ drop n l @ nl)\<rparr>"
  have "headertext ?self = Some (h @ ''# '' @ drop n l @ nl)" by simp
  from Cons.IH [OF this] obtain t where
    "headerlines n ls ?self = (Inr (), ?self\<lparr>headertext := Some ((h @ ''# '' @ drop n l @ nl) @ t)\<rparr>)"
    by blast
  then have "headerlines n (l # ls) self
      = (Inr (), self\<lparr>headertext := Some (h @ (''# '' @ drop n l @ nl @ t))\<rparr>)"
    using Cons.prems by simp
  then show ?case by blast
qed

lemma writeheaderblock_header_block:
  assumes "headertext f = Some []"
  shows "\<exists>h. writeheaderblock (header_block name stamp resistance) f
       = (Inr (), f\<lparr>headertext := Some h\<rparr>) \<and> h \<noteq> []"
  using headerlines_grows [OF assms] blocklines_header_block [of name stamp resistance]
  by (fastforce simp add: writeheaderblock_def Let_def)

lemma LAKESHORE_init_found:
  assumes "DEVICENAME C \<in> set rs"
  shows "fst (LAKESHORE_init DEBUG C rm_str rs rs_str w) =
     Inr \<lparr>lsn = DEVICENAME C, hr = LAKESHORE_Heater_Resistance C, lsh = None\<rparr>"
  using assms by (simp add: LAKESHORE_init_def Let_def)

lemmas statement_defs = LS_new_def fh_new_def fh_writeheaderblock_def LS_call_def LOOP_new_def
  Running_set_def LOOP_start_def Configure_def Start_def

lemma startup_states:
  assumes "DEVICENAME (env_configuration E) \<in> set (env_resources E)"
  shows "\<exists>ls0 w1 f0 w2 h ls1 w3 g4.
     ls0 = \<lparr>lsn = DEVICENAME (env_configuration E),
             hr = LAKESHORE_Heater_Resistance (env_configuration E), lsh = None\<rparr> \<and>
     LAKESHORE_init (env_DEBUG E) (env_configuration E) (env_rm E) (env_resources E) (env_rs E) w
       = (Inr ls0, w1) \<and>
     monitor_file_init (env_DEBUG E) (env_configuration E) (env_clock E) (env_stamp E)
       (FILEPATH (env_configuration E)) ''LS370_'' w1 = (f0, w2) \<and>
     h \<noteq> [] \<and>
     writeheaderblock
       (header_block (last (split_on (CHR ''/'') (fp f0))) (created f0) (env_str_float E (hr ls0)))
       f0 = (Inr (), f0\<lparr>headertext := Some h\<rparr>) \<and>
     Open (env_DEBUG E) ls0 w2 = (ls1, w3) \<and>
     g4 = (globals0 w)\<lparr>glob_LS := Some ls1, glob_fh := Some (f0\<lparr>headertext := Some h\<rparr>),
            outside := w3\<rparr> \<and>
     after E w 0 = globals0 w \<and>
     after E w 1 = (globals0 w)\<lparr>glob_LS := Some ls0, outside := w1\<rparr> \<and>
     after E w 2 = (globals0 w)\<lparr>glob_LS := Some ls0, glob_fh := Some f0, outside := w2\<rparr> \<and>
     after E w 3 = (globals0 w)\<lparr>glob_LS := Some ls0, glob_fh := Some (f0\<lparr>headertext := Some h\<rparr>),
                     outside := w2\<rparr> \<and>
     after E w 4 = g4 \<and> after E w 5 = g4 \<and> after E w 6 = g4 \<and>
     after E w 7 = g4\<lparr>glob_LOOP := Some Created\<rparr> \<and>
     after E w 8 = g4\<lparr>glob_LOOP := Some Created, glob_Running := Some True\<rparr> \<and>
     after E w 9 = g4\<lparr>glob_LOOP := Some Started, glob_Running := Some True\<rparr> \<and>
     steps (startup E) (globals0 w) =
       (Inr (), g4\<lparr>glob_LOOP := Some Started, glob_Running := Some True\<rparr>)"
proof -
  let ?ls0 = "\<lparr>lsn = DEVICENAME (env_configuration E),
             hr = LAKESHORE_Heater_Resistance (env_configuration E), lsh = None\<rparr>"
  obtain w1 where l: "LAKESHORE_init (env_DEBUG E) (env_configuration E) (env_rm E)
      (env_resources E) (env_rs E) w = (Inr ?ls0, w1)"
    using LAKESHORE_init_found [OF assms] by (metis prod.collapse)
  obtain f0 w2 where f: "monitor_file_init (env_DEBUG E) (env_configuration E) (env_clock E)
      (env_stamp E) (FILEPATH (env_configuration E)) ''LS370_'' w1 = (f0, w2)"
    by (metis prod.collapse)
  have "headertext f0 = Some []"
    using f by (auto simp: monitor_file_init_eq)
  then obtain h where h: "writeheaderblock
       (header_block (last (split_on (CHR ''/'') (fp f0))) (created f0) (env_str_float E (hr ?ls0)))
       f0 = (Inr (), f0\<lparr>headertext := Some h\<rparr>)" "h \<noteq> []"
    using writeheaderblock_header_block by blast
  obtain ls1 w3 where p: "Open (env_DEBUG E) ?ls0 w2 = (ls1, w3)"
    by (metis prod.collapse)
  define g4 where "g4 = (globals0 w)\<lparr>glob_LS := Some ls1,
      glob_fh := Some (f0\<lparr>headertext := Some h\<rparr>), outside := w3\<rparr>"
  note d = after_def startup_def bind_def ret_def statement_defs globals0_def g4_def
  have h': "writeheaderblock
       (header_block (last (split_on (CHR ''/'') (fp f0))) (created f0)
          (env_str_float E (LAKESHORE_Heater_Resistance (env_configuration E))))
       f0 = (Inr (), f0\<lparr>headertext := Some h\<rparr>)"
    using h(1) by simp
  have a0: "after E w 0 = globals0 w" by (simp add: d)
  have a1: "after E w 1 = (globals0 w)\<lparr>glob_LS := Some ?ls0, outside := w1\<rparr>"
    by (simp add: d l)
  have a2: "after E w 2 = (globals0 w)\<lparr>glob_LS := Some ?ls0, glob_fh := Some f0, outside := w2\<rparr>"
    by (simp add: d l f)
  have a3: "after E w 3 = (globals0 w)\<lparr>glob_LS := Some ?ls0,
      glob_fh := Some (f0\<lparr>headertext := Some h\<rparr>), outside := w2\<rparr>"
    by (simp add: d l f h')
  have a4: "after E w 4 = g4" by (simp add: d l f h' p)
  have a5: "after E w 5 = g4" by (simp add: d l f h' p)
  have a6: "after E w 6 = g4" by (simp add: d l f h' p)
  have a7: "after E w 7 = g4\<lparr>glob_LOOP := Some Created\<rparr>" by (simp add: d l f h' p)
  have a8: "after E w 8 = g4\<lparr>glob_LOOP := Some Created, glob_Running := Some True\<rparr>"
    by (simp add: d l f h' p)
  have a9: "after E w 9 = g4\<lparr>glob_LOOP := Some Started, glob_Running := Some True\<rparr>"
    by (simp add: d l f h' p)
  have s: "steps (startup E) (globals0 w) =
       (Inr (), g4\<lparr>glob_LOOP := Some Started, glob_Running := Some True\<rparr>)"
    by (simp add: d l f h' p)
  show ?thesis
    using l f h p g4_def a0 a1 a2 a3 a4 a5 a6 a7 a8 a9 s by blast
qed

lemma environ_source_found:
  "DEVICENAME (env_configuration environ_source) \<in> set (env_resources environ_source)"
  by (simp add: environ_source_def configuration_source_def)

lemma startup_not_found:
  assumes "DEVICENAME (env_configuration E) \<notin> set (env_resources E)"
  shows "\<exists>w'. steps (take (Suc k) (startup E)) (globals0 w)
           = (Inl SystemExit, (globals0 w)\<lparr>outside := w'\<rparr>)"
  using assms
  by (simp add: startup_def bind_def LS_new_def LAKESHORE_init_def Let_def globals0_def)

lemma startup_none:
  assumes "DEVICENAME (env_configuration E) \<notin> set (env_resources E)"
  shows "glob_LS (after E w k) = None \<and> glob_fh (after E w k) = None \<and>
         glob_LOOP (after E w k) = None \<and> glob_Running (after E w k) = None"
proof (cases k)
  case 0
  then show ?thesis by (simp add: after_def ret_def globals0_def)
next
  case (Suc j)
  obtain w' where "steps (take (Suc j) (startup E)) (globals0 w)
           = (Inl SystemExit, (globals0 w)\<lparr>outside := w'\<rparr>)"
    using startup_not_found [OF assms] by blast
  then show ?thesis using Suc by (simp add: after_def globals0_def)
qed

lemma startup_exit:
  assumes "DEVICENAME (env_configuration E) \<notin> set (env_resources E)"
  shows "fst (steps (startup E) (globals0 w)) = Inl SystemExit"
proof -
  have "take (Suc 8) (startup E) = startup E" by (simp add: startup_def)
  then show ?thesis using startup_not_found [OF assms, of 8 w] by auto
qed

section \<open>The claims about the writer\<close>

text \<open>
  Claim C1. No sample is dropped: whatever the state of the writer, after any sequence
  of lines handed to \<^verbatim>\<open>writedata\<close> and a final \<^verbatim>\<open>flushdata\<close>, on a
  clock that does not go backwards, no call raises, the buffer is empty, and the file
  has grown by the pending header (when there is one and at least one line) followed by
  every line that was buffered or handed over, each once, in the order of insertion,
  each followed by a newline. This holds of the sequence of texts written and of the
  content of the file.
\<close>

theorem no_sample_dropped:
  assumes "mono clk"
  shows "\<exists>self' w'.
     run C clk (map Writedata ds @ [Flushdata]) (self, w) = (Inr (), (self', w')) \<and>
     data self' = [] \<and>
     writes (fp self) (disk w') =
       writes (fp self) (disk w) @
         (if data self @ ds = [] then []
          else pending_header self @ map (\<lambda>d. d @ nl) (data self @ ds)) \<and>
     file_content (fp self) c (disk w') =
       file_content (fp self) c (disk w) @
         (if data self @ ds = [] then []
          else concat (pending_header self) @ concat (map (\<lambda>d. d @ nl) (data self @ ds)))"
proof -
  obtain self' w' where r:
    "run C clk (map Writedata ds @ [Flushdata]) (self, w) = (Inr (), (self', w'))"
    "data self' = []"
    "writes (fp self) (disk w') =
       writes (fp self) (disk w) @
         (if data self @ ds = [] then []
          else pending_header self @ map (\<lambda>d. d @ nl) (data self @ ds))"
    using run_then_flush [OF assms] by blast
  have "file_content (fp self) c (disk w') =
       file_content (fp self) c (disk w) @
         concat (if data self @ ds = [] then []
          else pending_header self @ map (\<lambda>d. d @ nl) (data self @ ds))"
    using run_file_content [OF r(1) r(3)] .
  then show ?thesis using r by auto
qed

theorem no_sample_dropped_witness:
  "mono clock_1s \<and>
   (\<exists>self' w'.
      run configuration_source clock_1s (map Writedata [''a'', ''b''] @ [Flushdata]) headed_file
        = (Inr (), (self', w')) \<and>
      data self' = [] \<and>
      writes ''./d.dat'' (disk w') =
        [''# column 07 : Heater Value [W]'' @ nl, ''a'' @ nl, ''b'' @ nl] \<and>
      file_content ''./d.dat'' ''old'' (disk w') =
        ''# column 07 : Heater Value [W]'' @ nl @ ''a'' @ nl @ ''b'' @ nl)"
  using no_sample_dropped [OF mono_clock_1s, of configuration_source "[''a'', ''b'']"
      "fst headed_file" "snd headed_file" "''old''"] mono_clock_1s
  by (simp add: headed_file_eq pending_header_def)

text \<open>
  Claim C3. The header is written at most once: after any sequence of
  \<^verbatim>\<open>writedata\<close> and \<^verbatim>\<open>flushdata\<close> calls, on any clock and from any
  state, no call raises and the texts written to the file are a header part \<open>H\<close>
  followed by data lines \<open>L\<close> only. \<open>H\<close> holds at most one text, and \<open>H\<close>
  together with the header still pending afterwards is the header that was pending
  before: a header that has been written is pending no more, so no later call writes
  it again, and a writer whose header is \<^verbatim>\<open>None\<close> or empty writes none.
\<close>

theorem header_at_most_once:
  "\<exists>self' w' H L.
     run C clk ops (self, w) = (Inr (), (self', w')) \<and>
     writes (fp self) (disk w') = writes (fp self) (disk w) @ H @ map (\<lambda>d. d @ nl) L \<and>
     H @ pending_header self' = pending_header self \<and>
     length H \<le> 1 \<and>
     L @ data self' = data self @ lines_of ops"
proof -
  obtain s' where r: "run C clk ops (self, w) = (Inr (), s')"
    and c: "conserved (self, w) s' (lines_of ops)"
    using conserved_run by blast
  obtain self' w' where p: "s' = (self', w')" by (cases s')
  from c obtain H L where
    w: "writes (fp self) (disk w') = writes (fp self) (disk w) @ H @ map (\<lambda>d. d @ nl) L"
    and h: "H @ pending_header self' = pending_header self"
    and ll: "L @ data self' = data self @ lines_of ops"
    unfolding conserved_def p by auto
  have "length (pending_header self) \<le> 1"
    by (simp add: pending_header_def split: option.splits)
  then have "length H \<le> 1" using h [symmetric] by simp
  then show ?thesis using r p w h ll by blast
qed

text \<open>
  Claim C10. With an empty buffer, \<^verbatim>\<open>savedata\<close> changes nothing at all (it does
  not even read the clock), and \<^verbatim>\<open>flushdata\<close> makes no call on the file and
  leaves header and buffer as they are, but sets the deadline to the clock's reading;
  so a writer that is only ever flushed never writes its header.
\<close>

theorem empty_buffer_no_io:
  assumes "data self = []"
  shows "savedata C clk (self, w) = (Inr (), (self, w)) \<and>
     flushdata C clk (self, w) =
       (Inr (), (self\<lparr>time := clk (ticks w)\<rparr>, w\<lparr>ticks := Suc (ticks w)\<rparr>)) \<and>
     (\<exists>self' w'. run C clk (replicate n Flushdata) (self, w) = (Inr (), (self', w')) \<and>
        disk w' = disk w \<and> headertext self' = headertext self \<and> data self' = [])"
proof -
  have "\<exists>self' w'. run C clk (replicate n Flushdata) (self, w) = (Inr (), (self', w')) \<and>
        disk w' = disk w \<and> headertext self' = headertext self \<and> data self' = []"
    using assms
  proof (induction n arbitrary: self w)
    case 0
    then show ?case by (simp add: ret_def)
  next
    case (Suc n)
    let ?self = "self\<lparr>time := clk (ticks w)\<rparr>" and ?w = "w\<lparr>ticks := Suc (ticks w)\<rparr>"
    have "data ?self = []" using Suc.prems by simp
    from Suc.IH [OF this, of ?w] Suc.prems show ?case
      by (auto simp add: bind_def flushdata_empty)
  qed
  then show ?thesis
    using assms by (simp add: savedata_empty flushdata_empty)
qed

theorem empty_buffer_no_io_witness:
  "data (fst headed_file) = [] \<and>
   savedata configuration_source clock_1s headed_file = (Inr (), headed_file) \<and>
   flushdata configuration_source clock_1s headed_file =
     (Inr (), ((fst headed_file)\<lparr>time := 1\<rparr>, (snd headed_file)\<lparr>ticks := 2\<rparr>)) \<and>
   (\<exists>self' w'.
      run configuration_source clock_1s (replicate 3 Flushdata) headed_file = (Inr (), (self', w')) \<and>
      disk w' = [Fopen ''./d.dat'' ''w'', Fclose ''./d.dat''] \<and>
      headertext self' = Some (''# column 07 : Heater Value [W]'' @ nl) \<and> data self' = [])"
  using empty_buffer_no_io [of "fst headed_file" configuration_source clock_1s
      "snd headed_file" 3]
  by (simp add: headed_file_eq clock_1s_def)

text \<open>
  Claim C2, as amended. \<^verbatim>\<open>savedata\<close> never raises. It flushes exactly when the
  buffer is not empty and the clock's reading has reached the deadline; a flush opens
  the file for appending, writes the pending header (when there is one), then every
  buffered line in the order of insertion, each followed by a newline, closes the
  file, empties the buffer, leaves no header pending and sets the deadline to the
  clock's next reading plus \<^verbatim>\<open>SAVINGINTERVALS\<close>; otherwise the writer and the
  file are as before. Hence, on a clock that does not go backwards, when a
  \<^verbatim>\<open>writedata\<close> flushes and, after any number of further \<^verbatim>\<open>writedata\<close>
  calls, another \<^verbatim>\<open>writedata\<close> flushes, the readings at which the two calls
  checked the deadline are at least the window apart. (The claim as stated, for every
  two flushes, fails: \<^verbatim>\<open>flushdata\<close> sets the deadline to the current reading and
  flushes at once, as the counterexample shows.)
\<close>

theorem flush_policy:
  assumes "mono clk"
  shows "(\<exists>self' w'. savedata C clk (self, w) = (Inr (), (self', w')) \<and>
      ((disk w' \<noteq> disk w) = (data self \<noteq> [] \<and> time self \<le> clk (ticks w))) \<and>
      (if data self \<noteq> [] \<and> time self \<le> clk (ticks w)
       then disk w' =
              disk w @ [Fopen (fp self) ''a''] @ map (Fwrite (fp self)) (pending_header self)
                @ map (\<lambda>d. Fwrite (fp self) (d @ nl)) (data self) @ [Fclose (fp self)] \<and>
            data self' = [] \<and> pending_header self' = [] \<and>
            time self' = clk (Suc (ticks w)) + SAVINGINTERVALS C
       else self' = self \<and> disk w' = disk w)) \<and>
     (disk (snd (snd (writedata C clk d s1))) \<noteq> disk (snd s1) \<and>
      s3 = snd (run C clk (map Writedata ds) (snd (writedata C clk d s1))) \<and>
      disk (snd (snd (writedata C clk d' s3))) \<noteq> disk (snd s3)
      \<longrightarrow> clk (ticks (snd s1)) + SAVINGINTERVALS C \<le> clk (ticks (snd s3)))"
proof -
  have policy: "\<exists>self' w'. savedata C clk (self, w) = (Inr (), (self', w')) \<and>
      ((disk w' \<noteq> disk w) = (data self \<noteq> [] \<and> time self \<le> clk (ticks w))) \<and>
      (if data self \<noteq> [] \<and> time self \<le> clk (ticks w)
       then disk w' =
              disk w @ [Fopen (fp self) ''a''] @ map (Fwrite (fp self)) (pending_header self)
                @ map (\<lambda>d. Fwrite (fp self) (d @ nl)) (data self) @ [Fclose (fp self)] \<and>
            data self' = [] \<and> pending_header self' = [] \<and>
            time self' = clk (Suc (ticks w)) + SAVINGINTERVALS C
       else self' = self \<and> disk w' = disk w)"
  proof (cases "data self = []")
    case True
    then show ?thesis by (simp add: savedata_empty)
  next
    case False
    show ?thesis
    proof (cases "clk (ticks w) < time self")
      case True
      then show ?thesis using False by (simp add: savedata_wait)
    next
      case wait: False
      then show ?thesis
        using False
        by (simp add: savedata_flush pending_header_after_flush flush_events_def)
    qed
  qed
  show ?thesis
    using policy flush_spacing [OF assms] by blast
qed

theorem flush_policy_witness:
  "mono clock_10s \<and>
   disk (snd (snd (writedata configuration_source clock_10s ''a'' headed_file)))
     \<noteq> disk (snd headed_file) \<and>
   disk (snd (snd (writedata configuration_source clock_10s ''c''
       (snd (run configuration_source clock_10s (map Writedata [''b''])
          (snd (writedata configuration_source clock_10s ''a'' headed_file)))))))
     \<noteq> disk (snd (snd (run configuration_source clock_10s (map Writedata [''b''])
          (snd (writedata configuration_source clock_10s ''a'' headed_file))))) \<and>
   clock_10s (ticks (snd headed_file)) + SAVINGINTERVALS configuration_source
     \<le> clock_10s (ticks (snd (snd (run configuration_source clock_10s (map Writedata [''b''])
          (snd (writedata configuration_source clock_10s ''a'' headed_file))))))"
  using flush_policy [OF mono_clock_10s, of configuration_source "fst headed_file"
      "snd headed_file" "''a''" headed_file
      "snd (run configuration_source clock_10s (map Writedata [''b''])
          (snd (writedata configuration_source clock_10s ''a'' headed_file)))" "[''b'']" "''c''"]
    mono_clock_10s
  by (simp add: headed_file_eq writer_defs configuration_source_def clock_10s_def)

theorem flush_spacing_counterexample:
  "(let s1 = headed_file;
        s2 = snd (writedata configuration_source clock_late ''a'' s1);
        s3 = snd (writedata configuration_source clock_late ''b'' s2);
        s4 = snd (flushdata configuration_source clock_late s3)
    in disk (snd s2) \<noteq> disk (snd s1) \<and> clock_late (ticks (snd s1)) = 11 \<and>
       disk (snd s3) = disk (snd s2) \<and>
       disk (snd s4) \<noteq> disk (snd s3) \<and> clock_late (Suc (ticks (snd s3))) = 15 \<and>
       SAVINGINTERVALS configuration_source = 10 \<and>
       disk (snd s4) =
         [Fopen ''./d.dat'' ''w'', Fclose ''./d.dat'',
          Fopen ''./d.dat'' ''a'', Fwrite ''./d.dat'' (''# column 07 : Heater Value [W]'' @ nl),
          Fwrite ''./d.dat'' (''a'' @ nl), Fclose ''./d.dat'',
          Fopen ''./d.dat'' ''a'', Fwrite ''./d.dat'' (''b'' @ nl), Fclose ''./d.dat''])"
  by (simp add: headed_file_eq writer_defs configuration_source_def clock_late_def)

text \<open>
  Claim C4. On a clock that does not go backwards, \<^verbatim>\<open>flushdata\<close> flushes at
  once whatever the deadline was: with lines in the buffer it writes the pending
  header and every buffered line and empties the buffer. With an empty buffer it is
  idempotent on the file: called once or twice it makes no call on the file and leaves
  path, header and buffer as they were (only the deadline follows the clock). In
  particular, for any configuration (any window), \<^verbatim>\<open>writedata(x)\<close> followed by
  \<^verbatim>\<open>flushdata()\<close> on a writer with an empty buffer adds to the file the pending
  header and the one line \<open>x\<close>, and nothing else.
\<close>

theorem forced_flush:
  assumes "mono clk"
  shows "(data self \<noteq> [] \<longrightarrow>
      (\<exists>self' w'. flushdata C clk (self, w) = (Inr (), (self', w')) \<and>
         disk w' =
           disk w @ [Fopen (fp self) ''a''] @ map (Fwrite (fp self)) (pending_header self)
             @ map (\<lambda>d. Fwrite (fp self) (d @ nl)) (data self) @ [Fclose (fp self)] \<and>
         data self' = [] \<and> pending_header self' = [])) \<and>
     (data self = [] \<longrightarrow>
      (\<exists>self1 w1 self2 w2.
         flushdata C clk (self, w) = (Inr (), (self1, w1)) \<and>
         flushdata C clk (self1, w1) = (Inr (), (self2, w2)) \<and>
         disk w1 = disk w \<and> headertext self1 = headertext self \<and> data self1 = [] \<and>
         disk w2 = disk w1 \<and> headertext self2 = headertext self1 \<and> data self2 = data self1 \<and>
         fp self2 = fp self \<and> created self2 = created self)) \<and>
     (data self = [] \<longrightarrow>
      (\<exists>self' w'.
         run C clk [Writedata x, Flushdata] (self, w) = (Inr (), (self', w')) \<and>
         data self' = [] \<and>
         writes (fp self) (disk w') = writes (fp self) (disk w) @ pending_header self @ [x @ nl] \<and>
         file_content (fp self) c (disk w') =
           file_content (fp self) c (disk w) @ concat (pending_header self) @ x @ nl))"
proof -
  have step: "clk (ticks w) \<le> clk (Suc (ticks w))"
    using assms by (simp add: monoD)
  have a: "data self \<noteq> [] \<longrightarrow>
      (\<exists>self' w'. flushdata C clk (self, w) = (Inr (), (self', w')) \<and>
         disk w' =
           disk w @ [Fopen (fp self) ''a''] @ map (Fwrite (fp self)) (pending_header self)
             @ map (\<lambda>d. Fwrite (fp self) (d @ nl)) (data self) @ [Fclose (fp self)] \<and>
         data self' = [] \<and> pending_header self' = [])"
    using step by (simp add: flushdata_flush pending_header_after_flush flush_events_def)
  have b: "data self = [] \<longrightarrow>
      (\<exists>self1 w1 self2 w2.
         flushdata C clk (self, w) = (Inr (), (self1, w1)) \<and>
         flushdata C clk (self1, w1) = (Inr (), (self2, w2)) \<and>
         disk w1 = disk w \<and> headertext self1 = headertext self \<and> data self1 = [] \<and>
         disk w2 = disk w1 \<and> headertext self2 = headertext self1 \<and> data self2 = data self1 \<and>
         fp self2 = fp self \<and> created self2 = created self)"
    by (simp add: flushdata_empty)
  have c: "data self = [] \<longrightarrow>
      (\<exists>self' w'.
         run C clk [Writedata x, Flushdata] (self, w) = (Inr (), (self', w')) \<and>
         data self' = [] \<and>
         writes (fp self) (disk w') = writes (fp self) (disk w) @ pending_header self @ [x @ nl] \<and>
         file_content (fp self) c (disk w') =
           file_content (fp self) c (disk w) @ concat (pending_header self) @ x @ nl)"
  proof
    assume e: "data self = []"
    obtain self' w' where r:
      "run C clk (map Writedata [x] @ [Flushdata]) (self, w) = (Inr (), (self', w'))"
      "data self' = []"
      "writes (fp self) (disk w') =
         writes (fp self) (disk w) @
           (if data self @ [x] = [] then []
            else pending_header self @ map (\<lambda>d. d @ nl) (data self @ [x]))"
      using run_then_flush [OF assms] by blast
    have wr: "writes (fp self) (disk w')
       = writes (fp self) (disk w) @ (pending_header self @ [x @ nl])"
      using r(3) e by simp
    have "file_content (fp self) c (disk w') =
           file_content (fp self) c (disk w) @ concat (pending_header self @ [x @ nl])"
      using run_file_content [OF r(1) wr] .
    then show "\<exists>self' w'.
         run C clk [Writedata x, Flushdata] (self, w) = (Inr (), (self', w')) \<and>
         data self' = [] \<and>
         writes (fp self) (disk w') = writes (fp self) (disk w) @ pending_header self @ [x @ nl] \<and>
         file_content (fp self) c (disk w') =
           file_content (fp self) c (disk w) @ concat (pending_header self) @ x @ nl"
      using r(1,2) wr by auto
  qed
  show ?thesis using a b c by blast
qed

theorem forced_flush_witness:
  "mono clock_1s \<and>
   data (fst headed_file) = [] \<and>
   pending_header (fst headed_file) = [''# column 07 : Heater Value [W]'' @ nl] \<and>
   (\<exists>self1 w1 self2 w2.
      flushdata configuration_source clock_1s headed_file = (Inr (), (self1, w1)) \<and>
      flushdata configuration_source clock_1s (self1, w1) = (Inr (), (self2, w2)) \<and>
      disk w2 = [Fopen ''./d.dat'' ''w'', Fclose ''./d.dat''] \<and>
      headertext self2 = headertext (fst headed_file)) \<and>
   (\<exists>self' w'.
      run configuration_source clock_1s [Writedata ''x'', Flushdata] headed_file
        = (Inr (), (self', w')) \<and>
      data self' = [] \<and>
      writes ''./d.dat'' (disk w') = [''# column 07 : Heater Value [W]'' @ nl, ''x'' @ nl] \<and>
      file_content ''./d.dat'' ''old'' (disk w') =
        ''# column 07 : Heater Value [W]'' @ nl @ ''x'' @ nl) \<and>
   data (fst headed_file\<lparr>data := [''y'']\<rparr>) \<noteq> [] \<and>
   (\<exists>self' w'.
      flushdata configuration_source clock_1s
        (fst headed_file\<lparr>data := [''y'']\<rparr>, snd headed_file) = (Inr (), (self', w')) \<and>
      disk w' =
        disk (snd headed_file) @
        [Fopen ''./d.dat'' ''a'',
         Fwrite ''./d.dat'' (''# column 07 : Heater Value [W]'' @ nl),
         Fwrite ''./d.dat'' (''y'' @ nl), Fclose ''./d.dat''] \<and>
      data self' = [])"
proof -
  note e = headed_file_parts
  have h: "headed_file = (fst headed_file, snd headed_file)" by simp
  note t1 = forced_flush [OF mono_clock_1s, of "fst headed_file" configuration_source
      "snd headed_file" "''x''" "''old''"]
  note t2 = forced_flush [OF mono_clock_1s, of "fst headed_file\<lparr>data := [''y'']\<rparr>"
      configuration_source "snd headed_file" "''x''" "''old''"]
  have a: "\<exists>self1 w1 self2 w2.
      flushdata configuration_source clock_1s headed_file = (Inr (), (self1, w1)) \<and>
      flushdata configuration_source clock_1s (self1, w1) = (Inr (), (self2, w2)) \<and>
      disk w2 = [Fopen ''./d.dat'' ''w'', Fclose ''./d.dat''] \<and>
      headertext self2 = headertext (fst headed_file)"
    using t1 e(1,4) by (metis h)
  have b: "\<exists>self' w'.
      run configuration_source clock_1s [Writedata ''x'', Flushdata] headed_file
        = (Inr (), (self', w')) \<and>
      data self' = [] \<and>
      writes ''./d.dat'' (disk w') = [''# column 07 : Heater Value [W]'' @ nl, ''x'' @ nl] \<and>
      file_content ''./d.dat'' ''old'' (disk w') =
        ''# column 07 : Heater Value [W]'' @ nl @ ''x'' @ nl"
    using t1 e(1) by (simp add: e(2,3,4))
  have c: "\<exists>self' w'.
      flushdata configuration_source clock_1s
        (fst headed_file\<lparr>data := [''y'']\<rparr>, snd headed_file) = (Inr (), (self', w')) \<and>
      disk w' =
        disk (snd headed_file) @
        [Fopen ''./d.dat'' ''a'',
         Fwrite ''./d.dat'' (''# column 07 : Heater Value [W]'' @ nl),
         Fwrite ''./d.dat'' (''y'' @ nl), Fclose ''./d.dat''] \<and>
      data self' = []"
    using t2 by (auto simp add: e(2,3))
  show ?thesis
    using mono_clock_1s a b c e(1,3) by simp
qed

text \<open>
  Claim C6, as amended. With a window of 10 seconds, a writer built by
  \<^verbatim>\<open>monitor_file.__init__\<close> and given its header, three \<^verbatim>\<open>writedata\<close>
  calls whose clock readings are within one second of the reading taken at
  construction make no call on the file: the three lines are buffered. After that, a
  \<^verbatim>\<open>flushdata\<close> (on a clock that does not go backwards) writes the header and
  exactly the three lines; a \<^verbatim>\<open>writedata\<close> whose reading is past the window
  writes the header and four lines, the three buffered ones and its own, since it
  appends its line before it saves. (The claim as stated, three lines for the next
  \<^verbatim>\<open>writedata\<close>, fails: the counterexample shows the four lines.)
\<close>

theorem scenario_A:
  assumes "SAVINGINTERVALS C = 10"
    and "monitor_file_init DEBUG C clk stamp fp0 fn0 w = (self0, w0)"
    and "writeheaderblock b self0 = (r, self1)"
    and "clk (ticks w0) \<le> clk (ticks w) + 1"
    and "clk (ticks w0 + 1) \<le> clk (ticks w) + 1"
    and "clk (ticks w0 + 2) \<le> clk (ticks w) + 1"
  shows "r = Inr () \<and>
     run C clk [Writedata a1, Writedata a2, Writedata a3] (self1, w0) =
       (Inr (), (self1\<lparr>data := [a1, a2, a3]\<rparr>, w0\<lparr>ticks := ticks w0 + 3\<rparr>)) \<and>
     (clk (ticks w0 + 3) \<le> clk (ticks w0 + 4) \<longrightarrow>
        (\<exists>self' w'.
           flushdata C clk (self1\<lparr>data := [a1, a2, a3]\<rparr>, w0\<lparr>ticks := ticks w0 + 3\<rparr>)
             = (Inr (), (self', w')) \<and>
           disk w' = disk w0 @ [Fopen (fp self1) ''a''] @ map (Fwrite (fp self1)) (pending_header self1)
             @ [Fwrite (fp self1) (a1 @ nl), Fwrite (fp self1) (a2 @ nl),
                Fwrite (fp self1) (a3 @ nl), Fclose (fp self1)] \<and>
           data self' = [])) \<and>
     (clk (ticks w) + 10 \<le> clk (ticks w0 + 3) \<longrightarrow>
        (\<exists>self' w'.
           writedata C clk a4 (self1\<lparr>data := [a1, a2, a3]\<rparr>, w0\<lparr>ticks := ticks w0 + 3\<rparr>)
             = (Inr (), (self', w')) \<and>
           disk w' = disk w0 @ [Fopen (fp self1) ''a''] @ map (Fwrite (fp self1)) (pending_header self1)
             @ [Fwrite (fp self1) (a1 @ nl), Fwrite (fp self1) (a2 @ nl),
                Fwrite (fp self1) (a3 @ nl), Fwrite (fp self1) (a4 @ nl), Fclose (fp self1)] \<and>
           data self' = []))"
proof -
  have i: "headertext self0 = Some []" "data self0 = []"
    "time self0 = clk (ticks w) + 10" "ticks w0 = Suc (ticks w)"
    using assms(1,2) by (auto simp: monitor_file_init_eq)
  obtain h where h: "writeheaderblock b self0 = (Inr (), self0\<lparr>headertext := Some h\<rparr>)"
    using writeheaderblock_Some [OF i(1)] by blast
  then have r: "r = Inr ()" and s1: "self1 = self0\<lparr>headertext := Some h\<rparr>"
    using assms(3) by simp_all
  have d: "data self1 = []" and t: "time self1 = clk (ticks w) + 10"
    using s1 i by simp_all
  have c0: "clk (ticks w0) < time self1" using assms(4) t by simp
  have c1: "clk (Suc (ticks w0)) < time self1" using assms(5) t by simp
  have c2: "clk (Suc (Suc (ticks w0))) < time self1" using assms(6) t by simp
  have run3: "run C clk [Writedata a1, Writedata a2, Writedata a3] (self1, w0) =
       (Inr (), (self1\<lparr>data := [a1, a2, a3]\<rparr>, w0\<lparr>ticks := ticks w0 + 3\<rparr>))"
    using c0 c1 c2 d by (simp add: bind_def ret_def writedata_wait)
  let ?s = "self1\<lparr>data := [a1, a2, a3]\<rparr>" and ?w = "w0\<lparr>ticks := ticks w0 + 3\<rparr>"
  have f: "clk (ticks w0 + 3) \<le> clk (ticks w0 + 4) \<longrightarrow>
        (\<exists>self' w'. flushdata C clk (?s, ?w) = (Inr (), (self', w')) \<and>
           disk w' = disk w0 @ [Fopen (fp self1) ''a''] @ map (Fwrite (fp self1)) (pending_header self1)
             @ [Fwrite (fp self1) (a1 @ nl), Fwrite (fp self1) (a2 @ nl),
                Fwrite (fp self1) (a3 @ nl), Fclose (fp self1)] \<and>
           data self' = [])"
  proof
    assume le: "clk (ticks w0 + 3) \<le> clk (ticks w0 + 4)"
    have "ticks ?w = ticks w0 + 3" "Suc (ticks ?w) = ticks w0 + 4" by simp_all
    then have "clk (ticks ?w) \<le> clk (Suc (ticks ?w))" using le by presburger
    moreover have "data ?s \<noteq> []" by simp
    ultimately show "\<exists>self' w'. flushdata C clk (?s, ?w) = (Inr (), (self', w')) \<and>
           disk w' = disk w0 @ [Fopen (fp self1) ''a''] @ map (Fwrite (fp self1)) (pending_header self1)
             @ [Fwrite (fp self1) (a1 @ nl), Fwrite (fp self1) (a2 @ nl),
                Fwrite (fp self1) (a3 @ nl), Fclose (fp self1)] \<and>
           data self' = []"
      using flushdata_flush [of ?s clk ?w C] by (simp add: flush_events_def)
  qed
  have g: "clk (ticks w) + 10 \<le> clk (ticks w0 + 3) \<longrightarrow>
        (\<exists>self' w'. writedata C clk a4 (?s, ?w) = (Inr (), (self', w')) \<and>
           disk w' = disk w0 @ [Fopen (fp self1) ''a''] @ map (Fwrite (fp self1)) (pending_header self1)
             @ [Fwrite (fp self1) (a1 @ nl), Fwrite (fp self1) (a2 @ nl),
                Fwrite (fp self1) (a3 @ nl), Fwrite (fp self1) (a4 @ nl), Fclose (fp self1)] \<and>
           data self' = [])"
  proof
    assume le: "clk (ticks w) + 10 \<le> clk (ticks w0 + 3)"
    have "ticks ?w = ticks w0 + 3" "time ?s = clk (ticks w) + 10" using t by simp_all
    then have "\<not> clk (ticks ?w) < time ?s" using le by (simp only: not_less)
    then show "\<exists>self' w'. writedata C clk a4 (?s, ?w) = (Inr (), (self', w')) \<and>
           disk w' = disk w0 @ [Fopen (fp self1) ''a''] @ map (Fwrite (fp self1)) (pending_header self1)
             @ [Fwrite (fp self1) (a1 @ nl), Fwrite (fp self1) (a2 @ nl),
                Fwrite (fp self1) (a3 @ nl), Fwrite (fp self1) (a4 @ nl), Fclose (fp self1)] \<and>
           data self' = []"
      using writedata_flush [of clk ?w ?s C a4] by (simp add: flush_events_def)
  qed
  show ?thesis using r run3 f g by blast
qed

theorem scenario_A_witness:
  "SAVINGINTERVALS configuration_source = 10 \<and>
   monitor_file_init DEBUG_source configuration_source clock_A ''20251128T120000''
     (FILEPATH configuration_source) ''LS370_'' world0 = (fst fresh_file, snd headed_file) \<and>
   writeheaderblock (nl @ ''  column 07 : Heater Value [W]'' @ nl) (fst fresh_file)
     = (Inr (), fst headed_file) \<and>
   clock_A 1 \<le> clock_A 0 + 1 \<and> clock_A 2 \<le> clock_A 0 + 1 \<and> clock_A 3 \<le> clock_A 0 + 1 \<and>
   run configuration_source clock_A [Writedata ''1'', Writedata ''2'', Writedata ''3'']
       (fst headed_file, snd headed_file) =
     (Inr (), ((fst headed_file)\<lparr>data := [''1'', ''2'', ''3'']\<rparr>, (snd headed_file)\<lparr>ticks := 4\<rparr>)) \<and>
   clock_A 4 \<le> clock_A 5 \<and>
   (\<exists>self' w'.
      flushdata configuration_source clock_A
        ((fst headed_file)\<lparr>data := [''1'', ''2'', ''3'']\<rparr>, (snd headed_file)\<lparr>ticks := 4\<rparr>)
        = (Inr (), (self', w')) \<and>
      disk w' = disk (snd headed_file) @
        [Fopen ''./d.dat'' ''a'', Fwrite ''./d.dat'' (''# column 07 : Heater Value [W]'' @ nl),
         Fwrite ''./d.dat'' (''1'' @ nl), Fwrite ''./d.dat'' (''2'' @ nl),
         Fwrite ''./d.dat'' (''3'' @ nl), Fclose ''./d.dat'']) \<and>
   clock_A 0 + 10 \<le> clock_A 4 \<and>
   (\<exists>self' w'.
      writedata configuration_source clock_A ''4''
        ((fst headed_file)\<lparr>data := [''1'', ''2'', ''3'']\<rparr>, (snd headed_file)\<lparr>ticks := 4\<rparr>)
        = (Inr (), (self', w')) \<and>
      disk w' = disk (snd headed_file) @
        [Fopen ''./d.dat'' ''a'', Fwrite ''./d.dat'' (''# column 07 : Heater Value [W]'' @ nl),
         Fwrite ''./d.dat'' (''1'' @ nl), Fwrite ''./d.dat'' (''2'' @ nl),
         Fwrite ''./d.dat'' (''3'' @ nl), Fwrite ''./d.dat'' (''4'' @ nl), Fclose ''./d.dat''])"
proof -
  have w: "ticks world0 = 0" "ticks (snd headed_file) = 1"
    by (simp_all add: world0_def headed_file_parts)
  have c: "SAVINGINTERVALS configuration_source = 10"
    by (simp add: configuration_source_def)
  have i: "monitor_file_init DEBUG_source configuration_source clock_A ''20251128T120000''
     (FILEPATH configuration_source) ''LS370_'' world0 = (fst fresh_file, snd headed_file)"
    using scenario_A_start(1,3) by simp
  have k: "clock_A (ticks (snd headed_file)) \<le> clock_A (ticks world0) + 1"
    "clock_A (ticks (snd headed_file) + 1) \<le> clock_A (ticks world0) + 1"
    "clock_A (ticks (snd headed_file) + 2) \<le> clock_A (ticks world0) + 1"
    "clock_A (ticks (snd headed_file) + 3) \<le> clock_A (ticks (snd headed_file) + 4)"
    "clock_A (ticks world0) + 10 \<le> clock_A (ticks (snd headed_file) + 3)"
    by (simp_all add: w clock_A_def)
  have k': "clock_A 1 \<le> clock_A 0 + 1 \<and> clock_A 2 \<le> clock_A 0 + 1 \<and> clock_A 3 \<le> clock_A 0 + 1 \<and>
    clock_A 4 \<le> clock_A 5 \<and> clock_A 0 + 10 \<le> clock_A 4"
    by (simp add: clock_A_def)
  note t = scenario_A [OF c i scenario_A_start(2) k(1,2,3),
      of "''1''" "''2''" "''3''" "''4''"]
  have n: "ticks (snd headed_file) + 3 = 4" using w by simp
  have r: "run configuration_source clock_A [Writedata ''1'', Writedata ''2'', Writedata ''3'']
       (fst headed_file, snd headed_file) =
     (Inr (), ((fst headed_file)\<lparr>data := [''1'', ''2'', ''3'']\<rparr>, (snd headed_file)\<lparr>ticks := 4\<rparr>))"
    using t n by simp
  have f: "\<exists>self' w'.
      flushdata configuration_source clock_A
        ((fst headed_file)\<lparr>data := [''1'', ''2'', ''3'']\<rparr>, (snd headed_file)\<lparr>ticks := 4\<rparr>)
        = (Inr (), (self', w')) \<and>
      disk w' = disk (snd headed_file) @
        [Fopen ''./d.dat'' ''a'', Fwrite ''./d.dat'' (''# column 07 : Heater Value [W]'' @ nl),
         Fwrite ''./d.dat'' (''1'' @ nl), Fwrite ''./d.dat'' (''2'' @ nl),
         Fwrite ''./d.dat'' (''3'' @ nl), Fclose ''./d.dat'']"
    using t k(4) by (auto simp add: n headed_file_parts(2,3))
  have g: "\<exists>self' w'.
      writedata configuration_source clock_A ''4''
        ((fst headed_file)\<lparr>data := [''1'', ''2'', ''3'']\<rparr>, (snd headed_file)\<lparr>ticks := 4\<rparr>)
        = (Inr (), (self', w')) \<and>
      disk w' = disk (snd headed_file) @
        [Fopen ''./d.dat'' ''a'', Fwrite ''./d.dat'' (''# column 07 : Heater Value [W]'' @ nl),
         Fwrite ''./d.dat'' (''1'' @ nl), Fwrite ''./d.dat'' (''2'' @ nl),
         Fwrite ''./d.dat'' (''3'' @ nl), Fwrite ''./d.dat'' (''4'' @ nl), Fclose ''./d.dat'']"
    using t k(5) by (auto simp add: n headed_file_parts(2,3))
  show ?thesis
    using c i scenario_A_start(2) k' r f g by (intro conjI) simp_all
qed

theorem scenario_A_counterexample:
  "clock_A 1 \<le> clock_A 0 + 1 \<and> clock_A 2 \<le> clock_A 0 + 1 \<and> clock_A 3 \<le> clock_A 0 + 1 \<and>
   clock_A 0 + 10 \<le> clock_A 4 \<and>
   disk (snd (snd (run configuration_source clock_A
       [Writedata ''1'', Writedata ''2'', Writedata ''3''] headed_file)))
     = [Fopen ''./d.dat'' ''w'', Fclose ''./d.dat''] \<and>
   disk (snd (snd (run configuration_source clock_A
       [Writedata ''1'', Writedata ''2'', Writedata ''3'', Writedata ''4''] headed_file)))
     = [Fopen ''./d.dat'' ''w'', Fclose ''./d.dat'',
        Fopen ''./d.dat'' ''a'', Fwrite ''./d.dat'' (''# column 07 : Heater Value [W]'' @ nl),
        Fwrite ''./d.dat'' (''1'' @ nl), Fwrite ''./d.dat'' (''2'' @ nl),
        Fwrite ''./d.dat'' (''3'' @ nl), Fwrite ''./d.dat'' (''4'' @ nl), Fclose ''./d.dat'']"
  by (simp add: headed_file_eq writer_defs configuration_source_def clock_A_def)

text \<open>
  Claim C8, as amended. Once the header has been flushed, \<^verbatim>\<open>self.headertext\<close>
  is \<^verbatim>\<open>None\<close>. \<^verbatim>\<open>writeheaderblock\<close> then leaves the writer's state
  unchanged in every case, but it returns without an error only when the block has no
  line between its first and its last newline; with at least one such line the first
  \<^verbatim>\<open>self.headertext += ...\<close> raises \<^verbatim>\<open>TypeError\<close>. (The claim as stated,
  that no error is raised, fails: see the counterexample.)
\<close>

theorem writeheaderblock_after_flush:
  assumes "headertext self = None"
  shows "writeheaderblock b self =
     (if blocklines b = [] then (Inr (), self) else (Inl TypeError, self))"
  using assms by (simp add: writeheaderblock_def Let_def headerlines_None)

theorem writeheaderblock_after_flush_witness:
  "headertext ((fst headed_file)\<lparr>headertext := None\<rparr>) = None \<and>
   blocklines (nl @ ''  column 07 : Heater Value [W]'' @ nl) = [''  column 07 : Heater Value [W]''] \<and>
   writeheaderblock (nl @ ''  column 07 : Heater Value [W]'' @ nl)
       ((fst headed_file)\<lparr>headertext := None\<rparr>)
     = (Inl TypeError, (fst headed_file)\<lparr>headertext := None\<rparr>) \<and>
   blocklines ''no newline at all'' = [] \<and>
   writeheaderblock ''no newline at all'' ((fst headed_file)\<lparr>headertext := None\<rparr>)
     = (Inr (), (fst headed_file)\<lparr>headertext := None\<rparr>)"
  using writeheaderblock_after_flush [of "(fst headed_file)\<lparr>headertext := None\<rparr>"
      "nl @ ''  column 07 : Heater Value [W]'' @ nl"]
    writeheaderblock_after_flush [of "(fst headed_file)\<lparr>headertext := None\<rparr>"
      "''no newline at all''"]
  by (simp add: blocklines_def nl_def)

theorem writeheaderblock_after_flush_counterexample:
  "(let s = snd (run configuration_source clock_late [Writedata ''a''] headed_file)
    in headertext (fst s) = None \<and>
       fst (writeheaderblock (nl @ ''  column 07 : Heater Value [W]'' @ nl) (fst s))
         = Inl TypeError)"
  by (simp add: headed_file_eq writer_defs configuration_source_def clock_late_def
      writeheaderblock_def blocklines_def lstrip_def isspace_def)

section \<open>The claims about the instrument, the sampling loop and the top level\<close>

text \<open>
  Claim C7, as amended. The line the loop hands to \<^verbatim>\<open>writedata\<close> is made of
  seven fields, each followed by a tab: the time stamp \<^verbatim>\<open>ts[:-5]\<close>, which is
  \<^verbatim>\<open>HH:MM:SS.f\<close> with one fractional digit (ten characters), the seconds
  marker in format \<^verbatim>\<open>12.1f\<close>, resistance, temperature and set-point in format
  \<^verbatim>\<open>8.3e\<close>, the heater range as a plain integer, and the heater value in format
  \<^verbatim>\<open>8.3e\<close>. The writer adds the newline when it flushes, so the line in the file
  ends with a tab and a newline: cut at the tabs it gives the seven fields and the
  newline. (The claim as stated fails on the time stamp, which has one fractional
  digit and not three, and on the tab before the newline: see the counterexample.)
  The formats are Python's, taken as functions whose results hold no tab; the pass is
  one without \<^verbatim>\<open>SHOWDATA\<close> in which \<^verbatim>\<open>read\<close> succeeds.
\<close>

theorem data_line_format:
  assumes "hour now < 24" "minute now < 60" "second now < 60" "microsecond now < 1000000"
    and "CHR 0x09 \<notin> set (fmt_12_1f s)" and "\<forall>x. CHR 0x09 \<notin> set (fmt_8_3e x)"
    and "mono clk" and "\<not> debug DEBUG [''SHOWDATA'']"
    and "read DEBUG dev py_float py_int LS w = (Inr (T1R, T1T, TSP, HTR, HTV), w1)"
    and "stamp = zero_pad 2 (hour now) @ '':'' @ zero_pad 2 (minute now) @ '':''
           @ zero_pad 2 (second now) @ ''.'' @ take 1 (zero_pad 6 (microsecond now))"
    and "line = record_line fmt_12_1f fmt_8_3e (strftime_HMSf now) s (T1R, T1T, TSP, HTR, HTV)"
  shows "line = stamp @ tab @ fmt_12_1f s @ tab @ fmt_8_3e T1R @ tab @ fmt_8_3e T1T @ tab
            @ fmt_8_3e TSP @ tab @ str_int HTR @ tab @ fmt_8_3e HTV @ tab \<and>
     length stamp = 10 \<and>
     split_on (CHR 0x09) (line @ nl) =
       [stamp, fmt_12_1f s, fmt_8_3e T1R, fmt_8_3e T1T, fmt_8_3e TSP, str_int HTR,
        fmt_8_3e HTV, nl] \<and>
     loop_body DEBUG C clk dev py_float py_int fmt_12_1f fmt_8_3e LS i now s (fh, w)
       = writedata C clk line (fh, w1) \<and>
     (\<exists>fh' w'.
        bind (loop_body DEBUG C clk dev py_float py_int fmt_12_1f fmt_8_3e LS i now s)
          (\<lambda>_. flushdata C clk) (fh, w) = (Inr (), (fh', w')) \<and>
        writes (fp fh) (disk w') =
          writes (fp fh) (disk w1) @ pending_header fh @ map (\<lambda>d. d @ nl) (data fh @ [line]))"
proof -
  have st: "take (length (strftime_HMSf now) - 5) (strftime_HMSf now) = stamp"
    using strftime_stamp(2) [OF assms(1-4)] assms(10) by simp
  have l: "line = stamp @ tab @ fmt_12_1f s @ tab @ fmt_8_3e T1R @ tab @ fmt_8_3e T1T @ tab
            @ fmt_8_3e TSP @ tab @ str_int HTR @ tab @ fmt_8_3e HTV @ tab"
    using st assms(11) by (simp add: record_line_def)
  have n: "length stamp = 10"
    using strftime_stamp(1) [OF assms(1-4)] st [symmetric] by simp
  have nt: "CHR 0x09 \<notin> set stamp"
    using stamp_no_tab assms(10) by simp
  have sp: "split_on (CHR 0x09) (line @ nl) =
       [stamp, fmt_12_1f s, fmt_8_3e T1R, fmt_8_3e T1T, fmt_8_3e TSP, str_int HTR,
        fmt_8_3e HTV, nl]"
    unfolding l tab_def
    by (rule split_line) (use nt assms(5,6) str_int_no_tab in \<open>simp_all add: nl_def\<close>)
  have lb: "loop_body DEBUG C clk dev py_float py_int fmt_12_1f fmt_8_3e LS i now s (fh, w)
       = writedata C clk line (fh, w1)"
    using assms(8,9,11) by (simp add: loop_body_def Let_def)
  obtain fh' w' where r:
    "run C clk (map Writedata [line] @ [Flushdata]) (fh, w1) = (Inr (), (fh', w'))"
    "writes (fp fh) (disk w') =
       writes (fp fh) (disk w1) @
         (if data fh @ [line] = [] then []
          else pending_header fh @ map (\<lambda>d. d @ nl) (data fh @ [line]))"
    using run_then_flush [OF assms(7)] by blast
  have "bind (loop_body DEBUG C clk dev py_float py_int fmt_12_1f fmt_8_3e LS i now s)
          (\<lambda>_. flushdata C clk) (fh, w) = (Inr (), (fh', w'))"
    using r(1) lb by (auto simp add: bind_def ret_def split: prod.splits sum.splits)
  then show ?thesis using l n sp lb r(2) by auto
qed

theorem data_line_format_counterexample:
  "record_line (\<lambda>x. ''         1.0'') (\<lambda>x. ''1.000e+00'')
       (strftime_HMSf \<lparr>hour = 12, minute = 34, second = 56, microsecond = 789012\<rparr>)
       (1::int) (1, 1, 1, 1, 1)
     = ''12:34:56.7'' @ tab @ ''         1.0'' @ tab @ ''1.000e+00'' @ tab @ ''1.000e+00'' @ tab
         @ ''1.000e+00'' @ tab @ ''1'' @ tab @ ''1.000e+00'' @ tab \<and>
   length ''12:34:56.7'' = 10 \<and>
   split_on (CHR 0x09)
     (record_line (\<lambda>x. ''         1.0'') (\<lambda>x. ''1.000e+00'')
       (strftime_HMSf \<lparr>hour = 12, minute = 34, second = 56, microsecond = 789012\<rparr>)
       (1::int) (1, 1, 1, 1, 1) @ nl)
     = [''12:34:56.7'', ''         1.0'', ''1.000e+00'', ''1.000e+00'', ''1.000e+00'', ''1'',
        ''1.000e+00'', nl]"
  by (simp add: example_stamp record_line_def tab_def nl_def)

theorem data_line_format_witness:
  "hour \<lparr>hour = 12, minute = 34, second = 56, microsecond = 789012\<rparr> < 24 \<and>
   minute \<lparr>hour = 12, minute = 34, second = 56, microsecond = 789012\<rparr> < 60 \<and>
   second \<lparr>hour = 12, minute = 34, second = 56, microsecond = 789012\<rparr> < 60 \<and>
   microsecond \<lparr>hour = 12, minute = 34, second = 56, microsecond = 789012\<rparr> < 1000000 \<and>
   CHR 0x09 \<notin> set ''         1.0'' \<and> CHR 0x09 \<notin> set ''1.000e+00'' \<and>
   mono clock_1s \<and> \<not> debug DEBUG_source [''SHOWDATA''] \<and>
   fst (read DEBUG_source device_ones parse_numeral parse_numeral LS_source world0)
     = Inr (1, 1, 1, 1, 1) \<and>
   split_on (CHR 0x09)
     (record_line (\<lambda>x. ''         1.0'') (\<lambda>x. ''1.000e+00'')
       (strftime_HMSf \<lparr>hour = 12, minute = 34, second = 56, microsecond = 789012\<rparr>)
       (1::int) (1, 1, 1, 1, 1) @ nl)
     = [''12:34:56.7'', ''         1.0'', ''1.000e+00'', ''1.000e+00'', ''1.000e+00'', ''1'',
        ''1.000e+00'', nl] \<and>
   (\<exists>fh' w'.
      bind (loop_body DEBUG_source configuration_source clock_1s device_ones parse_numeral
              parse_numeral (\<lambda>x. ''         1.0'') (\<lambda>x. ''1.000e+00'') LS_source 0
              \<lparr>hour = 12, minute = 34, second = 56, microsecond = 789012\<rparr> 1)
        (\<lambda>_. flushdata configuration_source clock_1s) (fst headed_file, world0)
        = (Inr (), (fh', w')) \<and>
      writes ''./d.dat'' (disk w') =
        writes ''./d.dat''
          (disk (snd (read DEBUG_source device_ones parse_numeral parse_numeral LS_source world0)))
        @ [''# column 07 : Heater Value [W]'' @ nl,
           ''12:34:56.7'' @ tab @ ''         1.0'' @ tab @ ''1.000e+00'' @ tab @ ''1.000e+00''
             @ tab @ ''1.000e+00'' @ tab @ ''1'' @ tab @ ''1.000e+00'' @ tab @ nl])"
proof -
  let ?now = "\<lparr>hour = 12, minute = 34, second = 56, microsecond = 789012\<rparr>"
  let ?f = "\<lambda>x::int. ''         1.0''" and ?g = "\<lambda>x::int. ''1.000e+00''"
  have b: "hour ?now < 24" "minute ?now < 60" "second ?now < 60" "microsecond ?now < 1000000"
    by simp_all
  have nt: "CHR 0x09 \<notin> set (?f 1)" "\<forall>x. CHR 0x09 \<notin> set (?g x)" by simp_all
  have d: "\<not> debug DEBUG_source [''SHOWDATA'']"
    by (simp add: debug_def DEBUG_source_def upper_def upper_char_def)
  have rd: "fst (read DEBUG_source device_ones parse_numeral parse_numeral LS_source world0)
     = Inr (1, 1, 1, 1, 1)"
    using read_stub [OF debug_flags(2), of device_ones parse_numeral parse_numeral LS_source world0]
    by (simp add: parse_numeral_1)
  then have rd': "read DEBUG_source device_ones parse_numeral parse_numeral LS_source world0
     = (Inr (1, 1, 1, 1, 1),
        snd (read DEBUG_source device_ones parse_numeral parse_numeral LS_source world0))"
    by (metis prod.collapse)
  note t = data_line_format [where fmt_12_1f = "?f" and fmt_8_3e = "?g" and s = "1::int"
      and now = "?now" and C = configuration_source and i = 0 and fh = "fst headed_file",
      OF b nt(1) nt(2) mono_clock_1s d rd' refl refl]
  have line: "record_line ?f ?g (strftime_HMSf ?now) (1::int) (1, 1, 1, 1, 1)
     = ''12:34:56.7'' @ tab @ ''         1.0'' @ tab @ ''1.000e+00'' @ tab @ ''1.000e+00'' @ tab
         @ ''1.000e+00'' @ tab @ ''1'' @ tab @ ''1.000e+00'' @ tab"
    by (simp add: example_stamp record_line_def tab_def)
  have s: "split_on (CHR 0x09) (record_line ?f ?g (strftime_HMSf ?now) (1::int) (1, 1, 1, 1, 1) @ nl)
     = [''12:34:56.7'', ''         1.0'', ''1.000e+00'', ''1.000e+00'', ''1.000e+00'', ''1'',
        ''1.000e+00'', nl]"
    by (simp add: example_stamp record_line_def tab_def nl_def)
  have e: "\<exists>fh' w'.
      bind (loop_body DEBUG_source configuration_source clock_1s device_ones parse_numeral
              parse_numeral ?f ?g LS_source 0 ?now 1)
        (\<lambda>_. flushdata configuration_source clock_1s) (fst headed_file, world0)
        = (Inr (), (fh', w')) \<and>
      writes ''./d.dat'' (disk w') =
        writes ''./d.dat''
          (disk (snd (read DEBUG_source device_ones parse_numeral parse_numeral LS_source world0)))
        @ [''# column 07 : Heater Value [W]'' @ nl,
           ''12:34:56.7'' @ tab @ ''         1.0'' @ tab @ ''1.000e+00'' @ tab @ ''1.000e+00''
             @ tab @ ''1.000e+00'' @ tab @ ''1'' @ tab @ ''1.000e+00'' @ tab @ nl]"
    using t by (auto simp add: line headed_file_parts)
  show ?thesis
    using b nt mono_clock_1s d rd s e by (intro conjI) simp_all
qed

text \<open>
  Claim C5, as amended. \<^verbatim>\<open>read()\<close> makes its queries in the fixed order
  \<^verbatim>\<open>RDGR? 1\<close>, \<^verbatim>\<open>RDGK? 1\<close>, \<^verbatim>\<open>SETP?\<close>, \<^verbatim>\<open>HTRRNG?\<close>,
  \<^verbatim>\<open>HTR?\<close> and converts each answer as it arrives, the fourth with
  \<^verbatim>\<open>int\<close> and the others with \<^verbatim>\<open>float\<close>. \<open>a1\<close> to \<open>a5\<close> are the
  outcomes of the five queries in this order: \<^verbatim>\<open>1\<close> under the flag
  \<^verbatim>\<open>NOGPIB\<close>, \<^verbatim>\<open>AttributeError\<close> when the instrument was never opened,
  and otherwise what the device and its transport give, an answer or an exception;
  \<open>v1\<close> to \<open>v5\<close> are the converted values, or \<^verbatim>\<open>ValueError\<close> for an
  answer that does not convert. \<^verbatim>\<open>read()\<close> returns the tuple of the five values
  exactly when all five steps succeed, and then it has sent exactly the five queries;
  otherwise it raises the exception of the first step that fails, and has sent only
  the queries up to and including that step. Under \<^verbatim>\<open>NOGPIB\<close>, or with the
  instrument not opened, nothing is sent. (The claim as stated fails: a read that
  fails has made fewer than five queries, and a transport error makes the read fail
  although no answer failed to convert; see the counterexample.)
\<close>

theorem read_outcome:
  assumes "a1 = (if debug DEBUG [''NOGPIB''] then Inr ''1''
                 else if lsh self = None then Inl AttributeError
                 else dev (gpib w) ''RDGR? 1'')"
    and "a2 = (if debug DEBUG [''NOGPIB''] then Inr ''1''
               else if lsh self = None then Inl AttributeError
               else dev (gpib w @ [Gquery ''RDGR? 1'']) ''RDGK? 1'')"
    and "a3 = (if debug DEBUG [''NOGPIB''] then Inr ''1''
               else if lsh self = None then Inl AttributeError
               else dev (gpib w @ [Gquery ''RDGR? 1'', Gquery ''RDGK? 1'']) ''SETP?'')"
    and "a4 = (if debug DEBUG [''NOGPIB''] then Inr ''1''
               else if lsh self = None then Inl AttributeError
               else dev (gpib w @ [Gquery ''RDGR? 1'', Gquery ''RDGK? 1'', Gquery ''SETP?''])
                      ''HTRRNG?'')"
    and "a5 = (if debug DEBUG [''NOGPIB''] then Inr ''1''
               else if lsh self = None then Inl AttributeError
               else dev (gpib w @ [Gquery ''RDGR? 1'', Gquery ''RDGK? 1'', Gquery ''SETP?'',
                      Gquery ''HTRRNG?'']) ''HTR?'')"
    and "v1 = (case a1 of Inl e \<Rightarrow> Inl e
               | Inr r \<Rightarrow> (case py_float r of None \<Rightarrow> Inl ValueError | Some x \<Rightarrow> Inr x))"
    and "v2 = (case a2 of Inl e \<Rightarrow> Inl e
               | Inr r \<Rightarrow> (case py_float r of None \<Rightarrow> Inl ValueError | Some x \<Rightarrow> Inr x))"
    and "v3 = (case a3 of Inl e \<Rightarrow> Inl e
               | Inr r \<Rightarrow> (case py_float r of None \<Rightarrow> Inl ValueError | Some x \<Rightarrow> Inr x))"
    and "v4 = (case a4 of Inl e \<Rightarrow> Inl e
               | Inr r \<Rightarrow> (case py_int r of None \<Rightarrow> Inl ValueError | Some x \<Rightarrow> Inr x))"
    and "v5 = (case a5 of Inl e \<Rightarrow> Inl e
               | Inr r \<Rightarrow> (case py_float r of None \<Rightarrow> Inl ValueError | Some x \<Rightarrow> Inr x))"
  shows "fst (read DEBUG dev py_float py_int self w) =
       (case v1 of Inl e \<Rightarrow> Inl e | Inr T1R \<Rightarrow>
        case v2 of Inl e \<Rightarrow> Inl e | Inr T1T \<Rightarrow>
        case v3 of Inl e \<Rightarrow> Inl e | Inr TSP \<Rightarrow>
        case v4 of Inl e \<Rightarrow> Inl e | Inr HTR \<Rightarrow>
        case v5 of Inl e \<Rightarrow> Inl e | Inr HTV \<Rightarrow> Inr (T1R, T1T, TSP, HTR, HTV)) \<and>
     ((\<exists>t. fst (read DEBUG dev py_float py_int self w) = Inr t) =
        (\<not> isl v1 \<and> \<not> isl v2 \<and> \<not> isl v3 \<and> \<not> isl v4 \<and> \<not> isl v5)) \<and>
     gpib (snd (read DEBUG dev py_float py_int self w)) =
       gpib w @
         (if debug DEBUG [''NOGPIB''] \<or> lsh self = None then []
          else map Gquery
            (take (Suc (length (takeWhile (\<lambda>ok. ok)
                 [\<not> isl v1, \<not> isl v2, \<not> isl v3, \<not> isl v4, \<not> isl v5])))
               [''RDGR? 1'', ''RDGK? 1'', ''SETP?'', ''HTRRNG?'', ''HTR?'']))"
proof -
  define w1 where "w1 = snd (query DEBUG dev self ''RDGR? 1'' w)"
  define w2 where "w2 = snd (query DEBUG dev self ''RDGK? 1'' w1)"
  define w3 where "w3 = snd (query DEBUG dev self ''SETP?'' w2)"
  define w4 where "w4 = snd (query DEBUG dev self ''HTRRNG?'' w3)"
  define w5 where "w5 = snd (query DEBUG dev self ''HTR?'' w4)"
  define M where "M = (debug DEBUG [''NOGPIB''] \<or> lsh self = None)"
  have g1: "gpib w1 = gpib w @ (if M then [] else [Gquery ''RDGR? 1''])"
    by (simp add: w1_def M_def query_gpib)
  have g2: "gpib w2 = gpib w @ (if M then [] else [Gquery ''RDGR? 1'', Gquery ''RDGK? 1''])"
    by (simp add: w2_def g1 query_gpib) (simp add: M_def)
  have g3: "gpib w3 = gpib w @
      (if M then [] else [Gquery ''RDGR? 1'', Gquery ''RDGK? 1'', Gquery ''SETP?''])"
    by (simp add: w3_def g2 query_gpib) (simp add: M_def)
  have g4: "gpib w4 = gpib w @
      (if M then [] else [Gquery ''RDGR? 1'', Gquery ''RDGK? 1'', Gquery ''SETP?'',
         Gquery ''HTRRNG?''])"
    by (simp add: w4_def g3 query_gpib) (simp add: M_def)
  have g5: "gpib w5 = gpib w @
      (if M then [] else [Gquery ''RDGR? 1'', Gquery ''RDGK? 1'', Gquery ''SETP?'',
         Gquery ''HTRRNG?'', Gquery ''HTR?''])"
    by (simp add: w5_def g4 query_gpib) (simp add: M_def)
  have s1: "\<And>f. bind (query DEBUG dev self ''RDGR? 1'') (\<lambda>r. bind (convert py_float r) f) w =
        (case v1 of Inl e \<Rightarrow> (Inl e, w1) | Inr x \<Rightarrow> f x w1)"
    unfolding ask_step w1_def assms(6) assms(1) by simp
  have s2: "\<And>f. bind (query DEBUG dev self ''RDGK? 1'') (\<lambda>r. bind (convert py_float r) f) w1 =
        (case v2 of Inl e \<Rightarrow> (Inl e, w2) | Inr x \<Rightarrow> f x w2)"
    unfolding ask_step w2_def assms(7) assms(2) g1 by (simp add: M_def)
  have s3: "\<And>f. bind (query DEBUG dev self ''SETP?'') (\<lambda>r. bind (convert py_float r) f) w2 =
        (case v3 of Inl e \<Rightarrow> (Inl e, w3) | Inr x \<Rightarrow> f x w3)"
    unfolding ask_step w3_def assms(8) assms(3) g2 by (simp add: M_def)
  have s4: "\<And>f. bind (query DEBUG dev self ''HTRRNG?'') (\<lambda>r. bind (convert py_int r) f) w3 =
        (case v4 of Inl e \<Rightarrow> (Inl e, w4) | Inr x \<Rightarrow> f x w4)"
    unfolding ask_step w4_def assms(9) assms(4) g3 by (simp add: M_def)
  have s5: "\<And>f. bind (query DEBUG dev self ''HTR?'') (\<lambda>r. bind (convert py_float r) f) w4 =
        (case v5 of Inl e \<Rightarrow> (Inl e, w5) | Inr x \<Rightarrow> f x w5)"
    unfolding ask_step w5_def assms(10) assms(5) g4 by (simp add: M_def)
  note r = read_chain [OF s1 s2 s3 s4 s5]
  have a: "fst (read DEBUG dev py_float py_int self w) =
       (case v1 of Inl e \<Rightarrow> Inl e | Inr T1R \<Rightarrow>
        case v2 of Inl e \<Rightarrow> Inl e | Inr T1T \<Rightarrow>
        case v3 of Inl e \<Rightarrow> Inl e | Inr TSP \<Rightarrow>
        case v4 of Inl e \<Rightarrow> Inl e | Inr HTR \<Rightarrow>
        case v5 of Inl e \<Rightarrow> Inl e | Inr HTV \<Rightarrow> Inr (T1R, T1T, TSP, HTR, HTV))"
    unfolding r by (simp split: sum.splits)
  have b: "(\<exists>t. fst (read DEBUG dev py_float py_int self w) = Inr t) =
        (\<not> isl v1 \<and> \<not> isl v2 \<and> \<not> isl v3 \<and> \<not> isl v4 \<and> \<not> isl v5)"
    unfolding a by (cases v1; cases v2; cases v3; cases v4; cases v5) simp_all
  have c: "gpib (snd (read DEBUG dev py_float py_int self w)) =
       gpib w @
         (if M then []
          else map Gquery
            (take (Suc (length (takeWhile (\<lambda>ok. ok)
                 [\<not> isl v1, \<not> isl v2, \<not> isl v3, \<not> isl v4, \<not> isl v5])))
               [''RDGR? 1'', ''RDGK? 1'', ''SETP?'', ''HTRRNG?'', ''HTR?'']))"
    unfolding r by (cases v1; cases v2; cases v3; cases v4; cases v5) (simp_all add: g1 g2 g3 g4 g5)
  show ?thesis using a b c unfolding M_def by blast
qed

theorem read_outcome_witness:
  "fst (read [] device_ones parse_numeral parse_numeral (fst (Open [] LS_source world0)) world0)
     = Inr (1, 1, 1, 1, 1) \<and>
   (\<exists>t. fst (read [] device_ones parse_numeral parse_numeral
       (fst (Open [] LS_source world0)) world0) = Inr t) \<and>
   gpib (snd (read [] device_ones parse_numeral parse_numeral
       (fst (Open [] LS_source world0)) world0))
     = [Gquery ''RDGR? 1'', Gquery ''RDGK? 1'', Gquery ''SETP?'', Gquery ''HTRRNG?'',
        Gquery ''HTR?''] \<and>
   fst (read DEBUG_source device_ones parse_numeral parse_numeral LS_source world0)
     = Inr (1, 1, 1, 1, 1) \<and>
   gpib (snd (read DEBUG_source device_ones parse_numeral parse_numeral LS_source world0)) = []"
proof -
  note t1 = read_outcome [where DEBUG = "[]" and self = "fst (Open [] LS_source world0)"
      and dev = device_ones and w = world0 and py_float = parse_numeral
      and py_int = parse_numeral, OF refl refl refl refl refl refl refl refl refl refl]
  note t2 = read_outcome [where DEBUG = DEBUG_source and self = LS_source
      and dev = device_ones and w = world0 and py_float = parse_numeral
      and py_int = parse_numeral, OF refl refl refl refl refl refl refl refl refl refl]
  have a: "fst (read [] device_ones parse_numeral parse_numeral (fst (Open [] LS_source world0)) world0)
     = Inr (1, 1, 1, 1, 1) \<and>
   (\<exists>t. fst (read [] device_ones parse_numeral parse_numeral
       (fst (Open [] LS_source world0)) world0) = Inr t) \<and>
   gpib (snd (read [] device_ones parse_numeral parse_numeral
       (fst (Open [] LS_source world0)) world0))
     = [Gquery ''RDGR? 1'', Gquery ''RDGK? 1'', Gquery ''SETP?'', Gquery ''HTRRNG?'',
        Gquery ''HTR?'']"
    using t1 by (simp add: LS_opened debug_flags device_ones_def parse_numeral_1 world0_gpib)
  have b: "fst (read DEBUG_source device_ones parse_numeral parse_numeral LS_source world0)
     = Inr (1, 1, 1, 1, 1) \<and>
   gpib (snd (read DEBUG_source device_ones parse_numeral parse_numeral LS_source world0)) = []"
    using t2 by (simp add: debug_flags parse_numeral_1 world0_gpib)
  show ?thesis using a b by simp
qed

theorem read_outcome_counterexample:
  "fst (read [] (\<lambda>g q. if q = ''SETP?'' then Inr ''?'' else Inr ''1'') parse_numeral parse_numeral
       (fst (Open [] LS_source world0)) world0)
     = Inl ValueError \<and>
   gpib (snd (read [] (\<lambda>g q. if q = ''SETP?'' then Inr ''?'' else Inr ''1'') parse_numeral
       parse_numeral (fst (Open [] LS_source world0)) world0))
     = [Gquery ''RDGR? 1'', Gquery ''RDGK? 1'', Gquery ''SETP?''] \<and>
   fst (read [] (\<lambda>g q. Inl VisaIOError) parse_numeral parse_numeral
       (fst (Open [] LS_source world0)) world0)
     = Inl VisaIOError \<and>
   gpib (snd (read [] (\<lambda>g q. Inl VisaIOError) parse_numeral parse_numeral
       (fst (Open [] LS_source world0)) world0))
     = [Gquery ''RDGR? 1'']"
  by (simp add: instrument_defs parse_numeral_1 parse_numeral_query)

text \<open>
  Claim C9, as amended. \<^verbatim>\<open>startup\<close> is the list of the statements of the top level
  up to the start of the thread, in the order of the source; \<^verbatim>\<open>after E w k\<close> is the
  state of the module's globals once the first \<open>k\<close> of them have run. When the device
  is among the resources, the nine statements all return, and they take effect in this
  strict order: the instrument object is built while no writer exists; the writer is
  built on the log file with its generated name, with no header and no data; the header
  text is handed to the writer; the instrument, until then not opened, is opened, then
  configured and started (these two change nothing in the model); the thread object is
  created while \<^verbatim>\<open>Running\<close> is still unbound; \<^verbatim>\<open>Running\<close> is set to true while
  the thread is created and not started; and only then the thread is started. When the
  device is not among the resources, the start-up ends with \<^verbatim>\<open>SystemExit\<close> and none
  of the four names is ever bound. (The claim as stated has the last two steps in the
  other order: the source sets the flag before it starts the thread; see the
  counterexample.)
\<close>

theorem startup_order:
  "(DEVICENAME (env_configuration E) \<in> set (env_resources E) \<longrightarrow>
     fst (steps (startup E) (globals0 w)) = Inr () \<and>
     glob_LS (after E w 0) = None \<and>
     (\<exists>ls. glob_LS (after E w 1) = Some ls \<and> lsh ls = None) \<and>
     glob_fh (after E w 1) = None \<and>
     (\<exists>f. glob_fh (after E w 2) = Some f \<and> headertext f = Some [] \<and> data f = [] \<and>
        created f = env_stamp E \<and>
        fp f = (if debug (env_DEBUG E) [''TEMPFILE'']
                then TEMPFILEPATH (env_configuration E) @ ''/'' @ TEMPFILENAME (env_configuration E)
                else rstrip_slash (FILEPATH (env_configuration E)) @ ''/'' @ ''LS370_''
                       @ env_stamp E @ ''.dat'')) \<and>
     (\<exists>f h. glob_fh (after E w 3) = Some f \<and> headertext f = Some h \<and> h \<noteq> []) \<and>
     (\<exists>ls. glob_LS (after E w 3) = Some ls \<and> lsh ls = None \<and>
        glob_LS (after E w 4) = Some (fst (Open (env_DEBUG E) ls (outside (after E w 3)))) \<and>
        outside (after E w 4) = snd (Open (env_DEBUG E) ls (outside (after E w 3)))) \<and>
     after E w 5 = after E w 4 \<and> after E w 6 = after E w 4 \<and>
     glob_LOOP (after E w 6) = None \<and> glob_Running (after E w 6) = None \<and>
     glob_LOOP (after E w 7) = Some Created \<and> glob_Running (after E w 7) = None \<and>
     glob_LOOP (after E w 8) = Some Created \<and> glob_Running (after E w 8) = Some True \<and>
     glob_LOOP (after E w 9) = Some Started \<and> glob_Running (after E w 9) = Some True \<and>
     glob_fh (after E w 9) = glob_fh (after E w 3) \<and>
     glob_LS (after E w 9) = glob_LS (after E w 4)) \<and>
   (DEVICENAME (env_configuration E) \<notin> set (env_resources E) \<longrightarrow>
     fst (steps (startup E) (globals0 w)) = Inl SystemExit \<and>
     (\<forall>k. glob_LS (after E w k) = None \<and> glob_fh (after E w k) = None \<and>
          glob_LOOP (after E w k) = None \<and> glob_Running (after E w k) = None))"
proof (intro conjI impI)
  assume found: "DEVICENAME (env_configuration E) \<in> set (env_resources E)"
  obtain ls0 w1 f0 w2 h ls1 w3 g4 where
    ls0: "ls0 = \<lparr>lsn = DEVICENAME (env_configuration E),
             hr = LAKESHORE_Heater_Resistance (env_configuration E), lsh = None\<rparr>"
    and f: "monitor_file_init (env_DEBUG E) (env_configuration E) (env_clock E) (env_stamp E)
       (FILEPATH (env_configuration E)) ''LS370_'' w1 = (f0, w2)"
    and h: "h \<noteq> []"
    and p: "Open (env_DEBUG E) ls0 w2 = (ls1, w3)"
    and g4: "g4 = (globals0 w)\<lparr>glob_LS := Some ls1, glob_fh := Some (f0\<lparr>headertext := Some h\<rparr>),
            outside := w3\<rparr>"
    and a: "after E w 1 = (globals0 w)\<lparr>glob_LS := Some ls0, outside := w1\<rparr>"
      "after E w 2 = (globals0 w)\<lparr>glob_LS := Some ls0, glob_fh := Some f0, outside := w2\<rparr>"
      "after E w 3 = (globals0 w)\<lparr>glob_LS := Some ls0, glob_fh := Some (f0\<lparr>headertext := Some h\<rparr>),
                     outside := w2\<rparr>"
      "after E w 4 = g4" "after E w 5 = g4" "after E w 6 = g4"
      "after E w 7 = g4\<lparr>glob_LOOP := Some Created\<rparr>"
      "after E w 8 = g4\<lparr>glob_LOOP := Some Created, glob_Running := Some True\<rparr>"
      "after E w 9 = g4\<lparr>glob_LOOP := Some Started, glob_Running := Some True\<rparr>"
    and s: "steps (startup E) (globals0 w) =
       (Inr (), g4\<lparr>glob_LOOP := Some Started, glob_Running := Some True\<rparr>)"
    using startup_states [OF found, of w] by blast
  have f0: "headertext f0 = Some []" "data f0 = []" "created f0 = env_stamp E"
    "fp f0 = (if debug (env_DEBUG E) [''TEMPFILE'']
                then TEMPFILEPATH (env_configuration E) @ ''/'' @ TEMPFILENAME (env_configuration E)
                else rstrip_slash (FILEPATH (env_configuration E)) @ ''/'' @ ''LS370_''
                       @ env_stamp E @ ''.dat'')"
    using f by (auto simp: monitor_file_init_eq)
  show "fst (steps (startup E) (globals0 w)) = Inr ()" by (simp add: s)
  show "glob_LS (after E w 0) = None" by (simp add: after_def ret_def globals0_def)
  show "\<exists>ls. glob_LS (after E w 1) = Some ls \<and> lsh ls = None"
    unfolding a by (simp add: ls0)
  show "glob_fh (after E w 1) = None" unfolding a by (simp add: globals0_def)
  show "\<exists>f. glob_fh (after E w 2) = Some f \<and> headertext f = Some [] \<and> data f = [] \<and>
        created f = env_stamp E \<and>
        fp f = (if debug (env_DEBUG E) [''TEMPFILE'']
                then TEMPFILEPATH (env_configuration E) @ ''/'' @ TEMPFILENAME (env_configuration E)
                else rstrip_slash (FILEPATH (env_configuration E)) @ ''/'' @ ''LS370_''
                       @ env_stamp E @ ''.dat'')"
    using f0 by (simp add: a)
  show "\<exists>f h. glob_fh (after E w 3) = Some f \<and> headertext f = Some h \<and> h \<noteq> []"
    using h by (simp add: a)
  show "\<exists>ls. glob_LS (after E w 3) = Some ls \<and> lsh ls = None \<and>
        glob_LS (after E w 4) = Some (fst (Open (env_DEBUG E) ls (outside (after E w 3)))) \<and>
        outside (after E w 4) = snd (Open (env_DEBUG E) ls (outside (after E w 3)))"
    using p by (simp add: a g4 ls0)
  show "after E w 5 = after E w 4" "after E w 6 = after E w 4" by (simp_all add: a)
  show "glob_LOOP (after E w 6) = None" "glob_Running (after E w 6) = None"
    "glob_LOOP (after E w 7) = Some Created" "glob_Running (after E w 7) = None"
    "glob_LOOP (after E w 8) = Some Created" "glob_Running (after E w 8) = Some True"
    "glob_LOOP (after E w 9) = Some Started" "glob_Running (after E w 9) = Some True"
    "glob_fh (after E w 9) = glob_fh (after E w 3)"
    "glob_LS (after E w 9) = glob_LS (after E w 4)"
    by (simp_all add: a g4 globals0_def)
next
  assume absent: "DEVICENAME (env_configuration E) \<notin> set (env_resources E)"
  show "fst (steps (startup E) (globals0 w)) = Inl SystemExit"
    by (rule startup_exit [OF absent])
  show "\<forall>k. glob_LS (after E w k) = None \<and> glob_fh (after E w k) = None \<and>
          glob_LOOP (after E w k) = None \<and> glob_Running (after E w k) = None"
    using startup_none [OF absent] by blast
qed

theorem startup_order_witness:
  "DEVICENAME (env_configuration environ_source) \<in> set (env_resources environ_source) \<and>
   fst (steps (startup environ_source) (globals0 world0)) = Inr () \<and>
   glob_fh (after environ_source world0 1) = None \<and>
   after environ_source world0 6 = after environ_source world0 4 \<and>
   glob_LOOP (after environ_source world0 7) = Some Created \<and>
   glob_Running (after environ_source world0 8) = Some True \<and>
   glob_LOOP (after environ_source world0 9) = Some Started \<and>
   DEVICENAME (env_configuration (environ_source\<lparr>env_resources := []\<rparr>))
     \<notin> set (env_resources (environ_source\<lparr>env_resources := []\<rparr>)) \<and>
   fst (steps (startup (environ_source\<lparr>env_resources := []\<rparr>)) (globals0 world0))
     = Inl SystemExit \<and>
   glob_fh (after (environ_source\<lparr>env_resources := []\<rparr>) world0 2) = None \<and>
   glob_LOOP (after (environ_source\<lparr>env_resources := []\<rparr>) world0 9) = None"
proof -
  have absent: "DEVICENAME (env_configuration (environ_source\<lparr>env_resources := []\<rparr>))
     \<notin> set (env_resources (environ_source\<lparr>env_resources := []\<rparr>))"
    by simp
  show ?thesis
    using startup_order [of environ_source world0]
      startup_order [of "environ_source\<lparr>env_resources := []\<rparr>" world0]
      environ_source_found absent
    by simp
qed

theorem startup_order_counterexample:
  "glob_Running (after environ_source world0 7) = None \<and>
   glob_Running (after environ_source world0 8) = Some True \<and>
   glob_LOOP (after environ_source world0 8) = Some Created \<and>
   glob_LOOP (after environ_source world0 9) = Some Started"
proof -
  obtain g4 where
    "after environ_source world0 4 = g4"
    "after environ_source world0 7 = g4\<lparr>glob_LOOP := Some Created\<rparr>"
    "after environ_source world0 8 = g4\<lparr>glob_LOOP := Some Created, glob_Running := Some True\<rparr>"
    "after environ_source world0 9 = g4\<lparr>glob_LOOP := Some Started, glob_Running := Some True\<rparr>"
    "\<exists>ls f w. g4 = (globals0 world0)\<lparr>glob_LS := Some ls, glob_fh := Some f, outside := w\<rparr>"
    using startup_states [OF environ_source_found, of world0] by blast
  then show ?thesis by (auto simp: globals0_def)
qed

end
